theory Spec2Isabelle
  imports Complex_Main "HOL-Library.Word" "HOL-Library.Sublist" "HOL-Library.Finite_Map"
    "HOL-Library.Product_Lexorder" "HOL-Library.Multiset" "HOL-Library.Code_Target_Numeral"
begin

section \<open>Data model\<close>

text \<open>
  Python floats are modelled as exact reals, except in the preprocessing, where the size of
  the working image is an integer truncated from a binary64 product and the rounding is
  modelled. The comparisons of the classifier are between quotients of small integers (pixel
  counts of a working image of at most 1024 pixels a side) and decimal constants, where
  rounding to binary64 does not change the outcome.

  The wall type is a Python string drawn from four literals; it is an enumeration here.
\<close>

datatype wall_type = main_wall | accent_wall | background | rejected

datatype py_error = ZeroDivisionError | IndexError | ResizeError | Cv2Error

type_synonym bbox = "int \<times> int \<times> int \<times> int"

type_synonym mask = "bool list list"

record WallSegment =
  mask :: mask
  area :: int
  bbox :: bbox
  confidence :: real
  wall_type :: wall_type

section \<open>Wall classifier (classify_wall_advanced)\<close>

definition area_ratio :: "bbox \<Rightarrow> nat \<times> nat \<Rightarrow> real" where
  "area_ratio b shp = (case b of (x, y, w, h) \<Rightarrow> case shp of (img_h, img_w) \<Rightarrow>
     real_of_int (w * h) / real (img_w * img_h))"

definition aspect_ratio :: "bbox \<Rightarrow> real" where
  "aspect_ratio b = (case b of (x, y, w, h) \<Rightarrow>
     real_of_int (max w h) / real_of_int (max (min w h) 1))"

definition position_x :: "bbox \<Rightarrow> nat \<times> nat \<Rightarrow> real" where
  "position_x b shp = (case b of (x, y, w, h) \<Rightarrow> case shp of (img_h, img_w) \<Rightarrow>
     (real_of_int x + real_of_int w / 2) / real img_w)"

definition position_y :: "bbox \<Rightarrow> nat \<times> nat \<Rightarrow> real" where
  "position_y b shp = (case b of (x, y, w, h) \<Rightarrow> case shp of (img_h, img_w) \<Rightarrow>
     (real_of_int y + real_of_int h / 2) / real img_h)"

definition edge_margin :: int where
  "edge_margin = 30"

definition touches_left :: "bbox \<Rightarrow> bool" where
  "touches_left b = (case b of (x, y, w, h) \<Rightarrow> x \<le> edge_margin)"

definition touches_right :: "bbox \<Rightarrow> nat \<times> nat \<Rightarrow> bool" where
  "touches_right b shp = (case b of (x, y, w, h) \<Rightarrow> case shp of (img_h, img_w) \<Rightarrow>
     x + w \<ge> int img_w - edge_margin)"

definition bbox_height :: "bbox \<Rightarrow> int" where
  "bbox_height b = (case b of (x, y, w, h) \<Rightarrow> h)"

text \<open>
  The first division, by \<open>img_w * img_h\<close>, raises ZeroDivisionError when the image has no
  pixels; it is the only place where the function can raise, since \<open>img_w\<close> and \<open>img_h\<close>
  are both non-zero afterwards. The mask argument is not read.
\<close>

definition classify_wall_advanced :: "bbox \<Rightarrow> nat \<times> nat \<Rightarrow> py_error + (wall_type \<times> real)" where
  "classify_wall_advanced b shp = (case shp of (img_h, img_w) \<Rightarrow>
     if img_w * img_h = 0 then Inl ZeroDivisionError
     else if area_ratio b shp > 20 / 100 \<and> aspect_ratio b < 35 / 10
            \<and> (touches_left b \<or> touches_right b shp)
            \<and> real_of_int (bbox_height b) > real img_h * (4 / 10)
          then Inr (main_wall, 95 / 100)
     else if area_ratio b shp > 12 / 100 \<and> aspect_ratio b < 4
            \<and> 15 / 100 < position_x b shp \<and> position_x b shp < 85 / 100
            \<and> position_y b shp < 75 / 100
            \<and> real_of_int (bbox_height b) > real img_h * (3 / 10)
          then Inr (accent_wall, 75 / 100)
     else if area_ratio b shp < 8 / 100 then Inr (rejected, 0)
     else Inr (background, 0))"

section \<open>Detection (detect_walls_improved)\<close>

text \<open>
  One entry of the list returned by the mask generator: the mask, the bounding box as a list
  of numbers and the stability score. The generator is outside the repository; its answer is
  an argument of the model.
\<close>

record proposal =
  segmentation :: mask
  bbox_raw :: "real list"
  stability_score :: real

definition py_int :: "real \<Rightarrow> int" where
  \<comment> \<open>Python's \<open>int(x)\<close> on a float: truncation towards zero.\<close>
  "py_int r = (if r \<ge> 0 then \<lfloor>r\<rfloor> else \<lceil>r\<rceil>)"

definition mask_sum :: "mask \<Rightarrow> int" where
  \<comment> \<open>\<open>mask.sum()\<close>: the number of True cells.\<close>
  "mask_sum m = int (length (filter (\<lambda>c. c) (concat m)))"

text \<open>
  The body of the loop over the generated masks. \<open>None\<close> is an iteration that appends
  nothing: the \<open>continue\<close> on a short bounding box, an exception caught by the loop's
  handler, or a classification score below 0.5.
\<close>

definition int_bbox :: "real list \<Rightarrow> bbox" where
  \<comment> \<open>\<open>(int(bbox_raw[0]), int(bbox_raw[1]), int(bbox_raw[2]), int(bbox_raw[3]))\<close>,
      evaluated only on lists of at least four numbers\<close>
  "int_bbox raw = (py_int (raw ! 0), py_int (raw ! 1), py_int (raw ! 2), py_int (raw ! 3))"

definition process_mask :: "nat \<times> nat \<Rightarrow> proposal \<Rightarrow> WallSegment option" where
  "process_mask shp md =
     (if length (bbox_raw md) \<ge> 4 then
        (let b = int_bbox (bbox_raw md);
             a = mask_sum (segmentation md);
             c = stability_score md
         in case classify_wall_advanced b shp of
              Inl e \<Rightarrow> None
            | Inr (wt, wall_score) \<Rightarrow>
                if wall_score \<ge> 5 / 10
                then Some \<lparr>mask = segmentation md, area = a, bbox = b,
                           confidence = c * wall_score, wall_type = wt\<rparr>
                else None)
      else None)"

definition type_priority :: "wall_type \<Rightarrow> int" where
  "type_priority t = (if t = main_wall then 3 else if t = accent_wall then 2 else 1)"

definition importance :: "WallSegment \<Rightarrow> int \<times> real" where
  \<comment> \<open>The key of the sort; pairs are compared lexicographically, as Python tuples are.\<close>
  "importance x = (type_priority (wall_type x), real_of_int (area x) * confidence x)"

definition sort_by_importance :: "WallSegment list \<Rightarrow> WallSegment list" where
  \<comment> \<open>\<open>list.sort(key, reverse=True)\<close>: a stable sort in descending order, which keeps
      elements with equal keys in their original order.\<close>
  "sort_by_importance xs = rev (sort_key importance (rev xs))"

subsection \<open>The scale factor, in binary64\<close>

text \<open>
  \<open>preprocess_image\<close> computes \<open>scale_factor = max_size / max(h, w)\<close> and the new size
  \<open>int(w * scale_factor), int(h * scale_factor)\<close> in binary64. A non-negative binary64
  number is kept as a pair \<open>(m, s)\<close> that stands for \<open>m / 2 ^ s\<close>; the quotient of two
  integers and the product of an integer and a float are rounded to 53 significant bits, to
  nearest, ties to even. The numbers here are far from the overflow and underflow of
  binary64.
\<close>

fun bit_length :: "nat \<Rightarrow> nat" where
  "bit_length n = (if n = 0 then 0 else Suc (bit_length (n div 2)))"

declare bit_length.simps [simp del]

definition round_half_even :: "nat \<Rightarrow> nat \<Rightarrow> nat" where
  \<comment> \<open>the integer nearest to \<open>n / d\<close>, the even one of two equally near\<close>
  "round_half_even n d =
     (let q = n div d; r = n mod d
      in if 2 * r < d then q else if d < 2 * r then q + 1 else if even q then q else q + 1)"

type_synonym dyadic = "nat \<times> int"

definition dyadic_value :: "dyadic \<Rightarrow> real" where
  "dyadic_value v = (case v of (m, s) \<Rightarrow>
     if 0 \<le> s then real m / 2 ^ nat s else real m * 2 ^ nat (- s))"

definition dyadic_int :: "dyadic \<Rightarrow> nat" where
  \<comment> \<open>\<open>int(x)\<close> of a non-negative float: the integer part\<close>
  "dyadic_int v = (case v of (m, s) \<Rightarrow>
     if 0 \<le> s then m div 2 ^ nat s else m * 2 ^ nat (- s))"

definition binary64_quotient :: "nat \<Rightarrow> nat \<Rightarrow> dyadic" where
  \<comment> \<open>\<open>n / d\<close> of two integers, \<open>d\<close> positive, correctly rounded: the quotient is scaled
      by a power of two into the range from \<open>2 ^ 52\<close> to \<open>2 ^ 53\<close> and rounded there\<close>
  "binary64_quotient n d =
     (if n = 0 then (0, 0)
      else (let s0 = 53 - (int (bit_length n) - int (bit_length d));
                num = (if 0 \<le> s0 then n * 2 ^ nat s0 else n);
                den = (if 0 \<le> s0 then d else d * 2 ^ nat (- s0))
            in if den * 2 ^ 53 \<le> num then (round_half_even num (2 * den), s0 - 1)
               else (round_half_even num den, s0)))"

definition binary64_times :: "nat \<Rightarrow> dyadic \<Rightarrow> dyadic" where
  \<comment> \<open>\<open>k * x\<close> for an integer \<open>k\<close> and a float \<open>x\<close>, correctly rounded\<close>
  "binary64_times k v = (case v of (m, s) \<Rightarrow>
     if 0 \<le> s then binary64_quotient (k * m) (2 ^ nat s)
     else binary64_quotient (k * m * 2 ^ nat (- s)) 1)"

text \<open>
  The shape of the working image and the scale factor that \<open>preprocess_image\<close> produces
  (max_size = 1024). The OpenCV calls raise on an image without pixels, and the resize
  raises when a side of the new size is 0. The function is called outside any \<open>try\<close> of
  \<open>detect_walls_improved\<close>, so its exception leaves the detection.
\<close>

definition preprocess_shape :: "nat \<times> nat \<Rightarrow> py_error + ((nat \<times> nat) \<times> real)" where
  "preprocess_shape shp = (case shp of (h, w) \<Rightarrow>
     if h = 0 \<or> w = 0 then Inl Cv2Error
     else if max h w > 1024
     then (let scale_factor = binary64_quotient 1024 (max h w);
               new_w = dyadic_int (binary64_times w scale_factor);
               new_h = dyadic_int (binary64_times h scale_factor)
           in if new_w = 0 \<or> new_h = 0 then Inl Cv2Error
              else Inr ((new_h, new_w), dyadic_value scale_factor))
     else Inr ((h, w), 1))"

text \<open>
  \<open>gen\<close> is what \<open>mask_generator.generate\<close> answers on the preprocessed image,
  \<open>None\<close> when it raises; that exception is caught and gives an empty list. The mask
  generator itself is present whenever the visualizer was constructed.
\<close>

definition detect_walls_improved ::
  "nat \<times> nat \<Rightarrow> proposal list option \<Rightarrow> py_error + (WallSegment list \<times> real)" where
  "detect_walls_improved image_shape gen =
     (case preprocess_shape image_shape of
        Inl e \<Rightarrow> Inl e
      | Inr (processed_shape, scale_factor) \<Rightarrow>
          (case gen of
             None \<Rightarrow> Inr ([], scale_factor)
           | Some masks \<Rightarrow>
               Inr (sort_by_importance (List.map_filter (process_mask processed_shape) masks),
                    scale_factor)))"

section \<open>Mask rescaler (resize_masks_to_original)\<close>

type_synonym grid = "8 word list list"

definition mask_uint8 :: "mask \<Rightarrow> grid" where
  \<comment> \<open>\<open>(mask * 255).astype(np.uint8)\<close>\<close>
  "mask_uint8 m = map (map (\<lambda>c. if c then 255 else 0)) m"

definition threshold127 :: "grid \<Rightarrow> mask" where
  \<comment> \<open>\<open>resized_mask > 127\<close>\<close>
  "threshold127 g = map (map (\<lambda>v. v > 127)) g"

text \<open>
  \<open>resize\<close> stands for \<open>cv2.resize\<close> with linear interpolation, called with the grid and
  the target size (width, height); \<open>Inl\<close> is an exception raised by the library. An
  exception anywhere in the loop body is caught and the segment skipped, as is the division
  by a zero scale factor.
\<close>

definition resize_segment ::
  "(grid \<Rightarrow> nat \<times> nat \<Rightarrow> py_error + grid) \<Rightarrow> nat \<times> nat \<Rightarrow> real \<Rightarrow> WallSegment
     \<Rightarrow> WallSegment option" where
  "resize_segment resize original_shape scale_factor segment =
     (case original_shape of (original_h, original_w) \<Rightarrow>
        case resize (mask_uint8 (mask segment)) (original_w, original_h) of
          Inl e \<Rightarrow> None
        | Inr resized_mask \<Rightarrow>
            (let resized_mask_bool = threshold127 resized_mask;
                 new_area = mask_sum resized_mask_bool
             in if scale_factor = 0 then None
                else (case bbox segment of (x, y, w, h) \<Rightarrow>
                  let new_bbox = (py_int (real_of_int x / scale_factor),
                                  py_int (real_of_int y / scale_factor),
                                  py_int (real_of_int w / scale_factor),
                                  py_int (real_of_int h / scale_factor))
                  in if new_area > 0
                     then Some \<lparr>mask = resized_mask_bool, area = new_area, bbox = new_bbox,
                                confidence = confidence segment,
                                wall_type = wall_type segment\<rparr>
                     else None)))"

definition resize_masks_to_original ::
  "(grid \<Rightarrow> nat \<times> nat \<Rightarrow> py_error + grid) \<Rightarrow> WallSegment list \<Rightarrow> nat \<times> nat \<Rightarrow> real
     \<Rightarrow> WallSegment list" where
  "resize_masks_to_original resize wall_segments original_shape scale_factor =
     (if scale_factor = 1 then wall_segments
      else List.map_filter (resize_segment resize original_shape scale_factor) wall_segments)"

section \<open>Paint compositor (apply_smart_paint)\<close>

text \<open>
  An image is a grid of three-channel 8-bit pixels, which is what \<open>cv2.imdecode\<close> with
  \<open>IMREAD_COLOR\<close> returns. The blend is computed on reals; the source computes it in
  single precision, which agrees wherever a factor is 0 or 1.
\<close>

type_synonym pixel = "8 word \<times> 8 word \<times> 8 word"

type_synonym image = "pixel list list"

definition shape2 :: "'a list list \<Rightarrow> nat \<times> nat" where
  \<comment> \<open>\<open>a.shape[:2]\<close> of a rectangular array\<close>
  "shape2 a = (length a, case a of [] \<Rightarrow> 0 | r # _ \<Rightarrow> length r)"

definition swap_channels :: "pixel \<Rightarrow> pixel" where
  "swap_channels p = (case p of (c0, c1, c2) \<Rightarrow> (c2, c1, c0))"

definition cvtColor_swap :: "image \<Rightarrow> image" where
  \<comment> \<open>\<open>cv2.COLOR_BGR2RGB\<close> and \<open>cv2.COLOR_RGB2BGR\<close> both exchange the first and third channel.\<close>
  "cvtColor_swap img = map (map swap_channels) img"

fun select_row :: "bool list \<Rightarrow> 'a list \<Rightarrow> 'a list" where
  "select_row (m # ms) (p # ps) = (if m then p # select_row ms ps else select_row ms ps)"
| "select_row _ _ = []"

fun select_pixels :: "mask \<Rightarrow> 'a list list \<Rightarrow> 'a list" where
  \<comment> \<open>\<open>image[mask_bool]\<close>: the pixels under the mask, in row-major order\<close>
  "select_pixels (mr # mrs) (r # rs) = select_row mr r @ select_pixels mrs rs"
| "select_pixels _ _ = []"

fun assign_row :: "('a \<Rightarrow> 'a) \<Rightarrow> bool list \<Rightarrow> 'a list \<Rightarrow> 'a list" where
  "assign_row f (m # ms) (p # ps) = (if m then f p else p) # assign_row f ms ps"
| "assign_row f _ ps = ps"

fun assign_pixels :: "('a \<Rightarrow> 'a) \<Rightarrow> mask \<Rightarrow> 'a list list \<Rightarrow> 'a list list" where
  \<comment> \<open>\<open>image[mask_bool] = f(image[mask_bool])\<close> for a function applied pixel by pixel\<close>
  "assign_pixels f (mr # mrs) (r # rs) = assign_row f mr r # assign_pixels f mrs rs"
| "assign_pixels f _ rs = rs"

definition np_clip :: "real \<Rightarrow> real \<Rightarrow> real \<Rightarrow> real" where
  "np_clip a lo hi = min (max a lo) hi"

definition to_uint8 :: "real \<Rightarrow> 8 word" where
  \<comment> \<open>\<open>astype(np.uint8)\<close>: truncation; values outside 0..255 wrap\<close>
  "to_uint8 r = word_of_int (py_int r)"

definition chan :: "8 word \<Rightarrow> real" where
  "chan c = real (unat c)"

text \<open>\<open>gray\<close> stands for \<open>cv2.COLOR_RGB2GRAY\<close> on one pixel.\<close>

definition brightness_factor :: "(pixel \<Rightarrow> 8 word) \<Rightarrow> pixel list \<Rightarrow> real" where
  "brightness_factor gray wall_pixels =
     (let avg_brightness = sum_list (map (\<lambda>p. chan (gray p)) wall_pixels)
                             / real (length wall_pixels)
      in np_clip (avg_brightness / 128) (7 / 10) (13 / 10))"

definition adjust_color :: "int \<times> int \<times> int \<Rightarrow> real \<Rightarrow> real \<times> real \<times> real" where
  "adjust_color color bf = (case color of (r, g, b) \<Rightarrow>
     (np_clip (real_of_int r * bf) 0 255, np_clip (real_of_int g * bf) 0 255,
      np_clip (real_of_int b * bf) 0 255))"

definition wall_opacity :: "real \<Rightarrow> wall_type \<Rightarrow> real" where
  "wall_opacity opacity t =
     (if t = accent_wall then opacity * (9 / 10)
      else if t = background then opacity * (6 / 10)
      else opacity)"

definition blend_pixel :: "real \<times> real \<times> real \<Rightarrow> real \<Rightarrow> pixel \<Rightarrow> pixel" where
  "blend_pixel adjusted_color alpha p =
     (case p of (p0, p1, p2) \<Rightarrow> case adjusted_color of (a0, a1, a2) \<Rightarrow>
        (to_uint8 (chan p0 * (1 - alpha) + a0 * alpha),
         to_uint8 (chan p1 * (1 - alpha) + a1 * alpha),
         to_uint8 (chan p2 * (1 - alpha) + a2 * alpha)))"

text \<open>
  The body of the painting loop on the RGB working image: a segment whose mask has another
  shape, or an empty mask, leaves the image as it is.
\<close>

definition paint_wall ::
  "(pixel \<Rightarrow> 8 word) \<Rightarrow> int \<times> int \<times> int \<Rightarrow> real \<Rightarrow> image \<Rightarrow> WallSegment \<Rightarrow> image" where
  "paint_wall gray color opacity result_image wall_segment =
     (if shape2 (mask wall_segment) \<noteq> shape2 result_image then result_image
      else if mask_sum (mask wall_segment) = 0 then result_image
      else (let wall_pixels = select_pixels (mask wall_segment) result_image;
                adjusted_color = adjust_color color (brightness_factor gray wall_pixels);
                alpha = wall_opacity opacity (wall_type wall_segment)
            in assign_pixels (blend_pixel adjusted_color alpha) (mask wall_segment)
                 result_image))"

definition apply_smart_paint ::
  "(pixel \<Rightarrow> 8 word) \<Rightarrow> image \<Rightarrow> WallSegment list \<Rightarrow> int \<times> int \<times> int \<Rightarrow> real \<Rightarrow> bool
     \<Rightarrow> image" where
  "apply_smart_paint gray img wall_segments color opacity paint_main_walls_only =
     (if wall_segments = [] then img
      else (let result_image = cvtColor_swap img;
                walls_to_paint = (if paint_main_walls_only
                                  then filter (\<lambda>w. wall_type w = main_wall) wall_segments
                                  else wall_segments)
            in if walls_to_paint = [] then cvtColor_swap result_image
               else cvtColor_swap (foldl (paint_wall gray color opacity) result_image
                                     walls_to_paint)))"

section \<open>Mask visualizer (create_mask_visualization)\<close>

definition vis_colors :: "(int \<times> int \<times> int) list" where
  "vis_colors = [(255, 0, 0), (0, 255, 0), (0, 0, 255), (255, 255, 0), (255, 0, 255)]"

definition vis_blend :: "int \<times> int \<times> int \<Rightarrow> pixel \<Rightarrow> pixel" where
  "vis_blend color p =
     (case p of (p0, p1, p2) \<Rightarrow> case color of (c0, c1, c2) \<Rightarrow>
        (to_uint8 (chan p0 * (5 / 10) + real_of_int c0 * (5 / 10)),
         to_uint8 (chan p1 * (5 / 10) + real_of_int c1 * (5 / 10)),
         to_uint8 (chan p2 * (5 / 10) + real_of_int c2 * (5 / 10))))"

text \<open>
  The loop of the visualizer has no handler of its own: an exception of the resize ends the
  whole call.
\<close>

fun vis_loop ::
  "(grid \<Rightarrow> nat \<times> nat \<Rightarrow> py_error + grid) \<Rightarrow> nat \<Rightarrow> image \<Rightarrow> WallSegment list
     \<Rightarrow> py_error + image" where
  "vis_loop resize idx vis_image [] = Inr vis_image"
| "vis_loop resize idx vis_image (segment # rest) =
     (let color = vis_colors ! (idx mod length vis_colors)
      in if shape2 (mask segment) \<noteq> shape2 vis_image
         then (case resize (mask_uint8 (mask segment))
                      (snd (shape2 vis_image), fst (shape2 vis_image)) of
                 Inl e \<Rightarrow> Inl e
               | Inr g \<Rightarrow> vis_loop resize (Suc idx)
                           (assign_pixels (vis_blend color) (threshold127 g) vis_image) rest)
         else vis_loop resize (Suc idx)
                (assign_pixels (vis_blend color) (mask segment) vis_image) rest)"

definition create_mask_visualization ::
  "(grid \<Rightarrow> nat \<times> nat \<Rightarrow> py_error + grid) \<Rightarrow> image \<Rightarrow> WallSegment list \<Rightarrow> py_error + image" where
  "create_mask_visualization resize img wall_segments =
     (case vis_loop resize 0 (cvtColor_swap img) (take 5 wall_segments) of
        Inl e \<Rightarrow> Inl e
      | Inr vis_image \<Rightarrow> Inr (cvtColor_swap vis_image))"

section \<open>Segmentation cache and request handlers (app.py)\<close>

record wall_info =
  info_id :: nat
  info_area :: int
  info_confidence :: real
  info_wall_type :: wall_type
  info_bbox :: "int list"
  info_area_percentage :: real

record cache_entry =
  wall_segments :: "WallSegment list"
  original_image :: image
  entry_wall_info :: "wall_info list"
  image_size :: "nat \<times> nat"
  timestamp :: string
  detection_time :: real

text \<open>
  \<open>mask_cache\<close> is a dictionary from the image hash to the entry; the handlers take the
  dictionary and return the new one.
\<close>

type_synonym mask_cache = "(string, cache_entry) fmap"

definition cache_lookup :: "mask_cache \<Rightarrow> string \<Rightarrow> cache_entry option" where
  \<comment> \<open>\<open>image_hash in mask_cache\<close> and \<open>mask_cache[image_hash]\<close>\<close>
  "cache_lookup c k = fmlookup c k"

definition cache_store :: "string \<Rightarrow> cache_entry \<Rightarrow> mask_cache \<Rightarrow> mask_cache" where
  \<comment> \<open>\<open>mask_cache[image_hash] = entry\<close>\<close>
  "cache_store k e c = fmupd k e c"

definition cache_len :: "mask_cache \<Rightarrow> nat" where
  \<comment> \<open>\<open>len(mask_cache)\<close>\<close>
  "cache_len c = fcard (fmdom c)"

datatype response_error = HttpError nat string

datatype detect_ok = DetectOk (walls_detected: nat) (resp_wall_info: "wall_info list")
  (resp_image_size: "nat \<times> nat") (resp_image_hash: string) (from_cache: bool)

text \<open>
  What a detection request brings: the hash of the image payload (\<open>get_image_hash\<close>), the
  decoded image (\<open>None\<close> when \<open>cv2.imdecode\<close> cannot decode it), the answer of the mask
  generator, and the clock readings. Decoding, hashing and the clock are outside the model.
\<close>

record detect_request =
  req_image_hash :: string
  req_image :: "image option"
  req_gen :: "proposal list option"
  req_timestamp :: string
  req_detection_time :: real

definition image_shape :: "image \<Rightarrow> nat \<times> nat" where
  \<comment> \<open>\<open>image.shape[:2]\<close>: (height, width)\<close>
  "image_shape img = shape2 img"

definition make_wall_info :: "image \<Rightarrow> WallSegment list \<Rightarrow> wall_info list" where
  "make_wall_info img resized_segments =
     map (\<lambda>(i, segment).
            \<lparr>info_id = i, info_area = area segment, info_confidence = confidence segment,
             info_wall_type = wall_type segment,
             info_bbox = (case bbox segment of (x, y, w, h) \<Rightarrow> [x, y, w, h]),
             info_area_percentage =
               real_of_int (area segment)
                 / real (fst (image_shape img) * snd (image_shape img)) * 100\<rparr>)
         (enumerate 0 resized_segments)"

definition detection_entry :: "image \<Rightarrow> WallSegment list \<Rightarrow> string \<Rightarrow> real \<Rightarrow> cache_entry" where
  \<comment> \<open>the dictionary that \<open>detect_walls_only\<close> stores for an image\<close>
  "detection_entry img resized_segments ts dt =
     \<lparr>wall_segments = resized_segments, original_image = img,
      entry_wall_info = make_wall_info img resized_segments,
      image_size = (snd (shape2 img), fst (shape2 img)),
      timestamp = ts, detection_time = dt\<rparr>"

text \<open>
  The handlers return the response and the cache after the request. An exception of the
  detection, or a division by zero in the area percentage, is caught by the handler's
  \<open>except\<close>, which answers 500 with the text of the exception after "Detection failed".
\<close>

definition detect_walls_only ::
  "(grid \<Rightarrow> nat \<times> nat \<Rightarrow> py_error + grid) \<Rightarrow> bool \<Rightarrow> mask_cache \<Rightarrow> detect_request
     \<Rightarrow> (response_error + detect_ok) \<times> mask_cache" where
  "detect_walls_only resize visualizer_loaded c req =
     (if \<not> visualizer_loaded
      then (Inl (HttpError 500 ''SAM model not loaded. Check logs for details.''), c)
      else (case cache_lookup c (req_image_hash req) of
        Some cached_data \<Rightarrow>
          (Inr (DetectOk (length (entry_wall_info cached_data)) (entry_wall_info cached_data)
                  (image_size cached_data) (req_image_hash req) True), c)
      | None \<Rightarrow>
          (case req_image req of
             None \<Rightarrow> (Inl (HttpError 400 ''Could not decode image''), c)
           | Some img \<Rightarrow>
               (case detect_walls_improved (image_shape img) (req_gen req) of
                  Inl e \<Rightarrow> (Inl (HttpError 500 ''Detection failed''), c)
                | Inr (segs, scale_factor) \<Rightarrow>
                    if segs \<noteq> []
                    then (let resized_segments =
                                resize_masks_to_original resize segs (image_shape img) scale_factor
                          in if resized_segments \<noteq> []
                                \<and> fst (image_shape img) * snd (image_shape img) = 0
                             then (Inl (HttpError 500 ''Detection failed''), c)
                             else (let cached_data =
                                         detection_entry img resized_segments
                                           (req_timestamp req) (req_detection_time req)
                                   in (Inr (DetectOk (length (entry_wall_info cached_data))
                                              (entry_wall_info cached_data)
                                              (snd (shape2 img), fst (shape2 img))
                                              (req_image_hash req) False),
                                       cache_store (req_image_hash req) cached_data c)))
                    else (Inr (DetectOk 0 [] (snd (shape2 img), fst (shape2 img))
                                 (req_image_hash req) False), c)))))"

text \<open>
  A paint request after the JSON body and the colour have been parsed: \<open>image_hash\<close> may be
  missing, \<open>wall_ids\<close> defaults to the empty list.
\<close>

record paint_request =
  paint_image_hash :: "string option"
  wall_ids :: "int list"
  color_rgb :: "int \<times> int \<times> int"
  paint_opacity :: real
  mainWallsOnly :: bool

definition py_index :: "'a list \<Rightarrow> int \<Rightarrow> py_error + 'a" where
  \<comment> \<open>\<open>xs[i]\<close>: a negative index counts from the end; out of range raises IndexError\<close>
  "py_index xs i =
     (if 0 \<le> i \<and> i < int (length xs) then Inr (xs ! nat i)
      else if i < 0 \<and> - int (length xs) \<le> i then Inr (xs ! nat (int (length xs) + i))
      else Inl IndexError)"

fun select_walls :: "WallSegment list \<Rightarrow> int list \<Rightarrow> py_error + WallSegment list" where
  \<comment> \<open>\<open>[wall_segments[i] for i in selected_wall_ids if i < len(wall_segments)]\<close>\<close>
  "select_walls segs [] = Inr []"
| "select_walls segs (i # ids) =
     (if i < int (length segs)
      then (case py_index segs i of
              Inl e \<Rightarrow> Inl e
            | Inr s \<Rightarrow> (case select_walls segs ids of
                          Inl e \<Rightarrow> Inl e
                        | Inr rest \<Rightarrow> Inr (s # rest)))
      else select_walls segs ids)"

definition filter_walls :: "WallSegment list \<Rightarrow> int list \<Rightarrow> py_error + WallSegment list" where
  \<comment> \<open>the wall filter of \<open>paint_instant\<close>: an empty selection means all cached walls\<close>
  "filter_walls segs selected_wall_ids =
     (if selected_wall_ids \<noteq> [] then select_walls segs selected_wall_ids else Inr segs)"

datatype paint_ok = PaintOk (result_image: image) (walls_painted: nat)

definition paint_instant ::
  "(pixel \<Rightarrow> 8 word) \<Rightarrow> bool \<Rightarrow> mask_cache \<Rightarrow> paint_request \<Rightarrow> response_error + paint_ok" where
  "paint_instant gray visualizer_loaded c req =
     (if \<not> visualizer_loaded then Inl (HttpError 500 ''SAM model not loaded'')
      else (case (case paint_image_hash req of
                    None \<Rightarrow> None
                  | Some k \<Rightarrow> if k = [] then None else cache_lookup c k) of
        None \<Rightarrow> Inl (HttpError 400 ''Image not found in cache. Please detect walls first.'')
      | Some cached_data \<Rightarrow>
          (case filter_walls (wall_segments cached_data) (wall_ids req) of
             Inl e \<Rightarrow> Inl (HttpError 500 ''Painting failed: list index out of range'')
           | Inr walls_to_paint \<Rightarrow>
               if walls_to_paint = [] then Inl (HttpError 400 ''No valid walls to paint'')
               else Inr (PaintOk (apply_smart_paint gray (original_image cached_data)
                                    walls_to_paint (color_rgb req) (paint_opacity req)
                                    (mainWallsOnly req))
                           (length walls_to_paint)))))"

datatype visualize_ok = VisualizeOk (visualization: image) (walls_found: nat)

definition visualize_masks ::
  "(grid \<Rightarrow> nat \<times> nat \<Rightarrow> py_error + grid) \<Rightarrow> bool \<Rightarrow> mask_cache \<Rightarrow> string option
     \<Rightarrow> response_error + visualize_ok" where
  "visualize_masks resize visualizer_loaded c image_hash =
     (if \<not> visualizer_loaded then Inl (HttpError 500 ''SAM model not loaded'')
      else (case (case image_hash of
                    None \<Rightarrow> None
                  | Some k \<Rightarrow> if k = [] then None else cache_lookup c k) of
        None \<Rightarrow> Inl (HttpError 400 ''Image not found in cache'')
      | Some cached_data \<Rightarrow>
          (case create_mask_visualization resize (original_image cached_data)
                  (wall_segments cached_data) of
             Inl e \<Rightarrow> Inl (HttpError 500 ''cv2.resize failed'')
           | Inr vis_image \<Rightarrow> Inr (VisualizeOk vis_image (length (wall_segments cached_data))))))"

text \<open>
  \<open>clear_cache\<close> answers with the message \<open>Cleared n cached images\<close>; the response of the
  model carries the number \<open>n\<close>.
\<close>

definition clear_cache :: "mask_cache \<Rightarrow> nat \<times> mask_cache" where
  "clear_cache c = (let cache_size = cache_len c in (cache_size, fmempty))"

section \<open>Example inputs\<close>

definition edge_proposal :: "real \<Rightarrow> proposal" where
  \<comment> \<open>a region at the left edge of a 50 x 14 working image, half the image high\<close>
  "edge_proposal s = \<lparr>segmentation = [[True]], bbox_raw = [0, 0, 21, 7], stability_score = s\<rparr>"

definition luma :: "pixel \<Rightarrow> 8 word" where
  \<comment> \<open>a grey conversion with the weights 0.299, 0.587 and 0.114, for the examples\<close>
  "luma p = (case p of (r, g, b) \<Rightarrow>
     to_uint8 (299 / 1000 * chan r + 587 / 1000 * chan g + 114 / 1000 * chan b + 1 / 2))"

definition unit_segment :: "wall_type \<Rightarrow> WallSegment" where
  \<comment> \<open>a segment covering the only pixel of a 1 x 1 image\<close>
  "unit_segment t = \<lparr>mask = [[True]], area = 1, bbox = (0, 0, 1, 1), confidence = 3 / 4,
     wall_type = t\<rparr>"

definition gray_image :: image where
  "gray_image = [[(128, 128, 128)]]"

definition unit_entry :: "wall_type \<Rightarrow> cache_entry" where
  "unit_entry t = \<lparr>wall_segments = [unit_segment t], original_image = gray_image,
     entry_wall_info = [], image_size = (1, 1), timestamp = [], detection_time = 0\<rparr>"

definition unit_cache :: "wall_type \<Rightarrow> mask_cache" where
  \<comment> \<open>a cache with one entry, under the key \<open>k\<close>\<close>
  "unit_cache t = cache_store ''k'' (unit_entry t) fmempty"

definition unit_paint :: "int list \<Rightarrow> real \<Rightarrow> bool \<Rightarrow> paint_request" where
  "unit_paint ids opacity main_only = \<lparr>paint_image_hash = Some ''k'', wall_ids = ids,
     color_rgb = (255, 0, 0), paint_opacity = opacity, mainWallsOnly = main_only\<rparr>"

definition nn_resize :: "grid \<Rightarrow> nat \<times> nat \<Rightarrow> py_error + grid" where
  \<comment> \<open>a nearest-neighbour resize to (width, height), standing for the library's resize in
      the examples; an empty source or target is an error\<close>
  "nn_resize g dsize = (case dsize of (w, h) \<Rightarrow>
     if g = [] \<or> hd g = [] \<or> w = 0 \<or> h = 0 then Inl ResizeError
     else Inr (map (\<lambda>i. map (\<lambda>j. g ! (i * length g div h) ! (j * length (hd g) div w)) [0..<w])
                 [0..<h]))"

definition empty_detection :: detect_request where
  \<comment> \<open>a detection request for which the generator proposes nothing\<close>
  "empty_detection = \<lparr>req_image_hash = ''k'', req_image = Some gray_image, req_gen = Some [],
     req_timestamp = [], req_detection_time = 0\<rparr>"

definition room_proposal :: "real list \<Rightarrow> mask \<Rightarrow> proposal" where
  \<comment> \<open>a proposal in a 200 x 100 working image\<close>
  "room_proposal box m = \<lparr>segmentation = m, bbox_raw = box, stability_score = 9 / 10\<rparr>"

definition room_proposals :: "proposal list" where
  "room_proposals = [room_proposal [60, 10, 60, 50] [[True, True]],
                     room_proposal [0, 0, 100, 60] [[True]],
                     room_proposal [0, 0, 100, 60] [[True, True]]]"

definition room_walls :: "WallSegment list" where
  \<comment> \<open>the segments detection retains from \<open>room_proposals\<close>, in the order it returns them\<close>
  "room_walls =
     [\<lparr>mask = [[True, True]], area = 2, bbox = (0, 0, 100, 60), confidence = 171 / 200,
        wall_type = main_wall\<rparr>,
      \<lparr>mask = [[True]], area = 1, bbox = (0, 0, 100, 60), confidence = 171 / 200,
        wall_type = main_wall\<rparr>,
      \<lparr>mask = [[True, True]], area = 2, bbox = (60, 10, 60, 50), confidence = 27 / 40,
        wall_type = accent_wall\<rparr>]"




definition unit_proposal :: proposal where
  \<comment> \<open>a proposal covering a 1 x 1 image\<close>
  "unit_proposal = \<lparr>segmentation = [[True]], bbox_raw = [0, 0, 1, 1], stability_score = 1\<rparr>"

definition wall_detection :: detect_request where
  "wall_detection = \<lparr>req_image_hash = ''k'', req_image = Some gray_image,
     req_gen = Some [unit_proposal], req_timestamp = ''t'', req_detection_time = 2\<rparr>"

definition unit_wall :: WallSegment where
  "unit_wall = \<lparr>mask = [[True]], area = 1, bbox = (0, 0, 1, 1), confidence = 95 / 100,
     wall_type = main_wall\<rparr>"

definition wide_image :: image where
  \<comment> \<open>a black image 2048 wide and 1536 high, scaled by 1/2 for detection\<close>
  "wide_image = replicate 1536 (replicate 2048 (0, 0, 0))"

definition blank_mask :: mask where
  \<comment> \<open>a mask of the 1024 x 768 working image with no cell set\<close>
  "blank_mask = replicate 768 (replicate 1024 False)"

definition blank_proposal :: proposal where
  \<comment> \<open>a proposal whose box is a main wall of the working image and whose mask is blank\<close>
  "blank_proposal = \<lparr>segmentation = blank_mask, bbox_raw = [0, 0, 512, 512],
     stability_score = 1\<rparr>"

definition blank_wall :: WallSegment where
  "blank_wall = \<lparr>mask = blank_mask, area = 0, bbox = (0, 0, 512, 512), confidence = 95 / 100,
     wall_type = main_wall\<rparr>"

definition thin_image :: image where
  \<comment> \<open>an image 2000 wide and 1 high: its height scales to 0\<close>
  "thin_image = replicate 1 (replicate 2000 (0, 0, 0))"

definition thin_detection :: detect_request where
  "thin_detection = \<lparr>req_image_hash = ''k'', req_image = Some thin_image,
     req_gen = Some [], req_timestamp = ''t'', req_detection_time = 2\<rparr>"

definition blank_detection :: detect_request where
  "blank_detection = \<lparr>req_image_hash = ''k'', req_image = Some wide_image,
     req_gen = Some [blank_proposal], req_timestamp = ''t'', req_detection_time = 2\<rparr>"

definition unit_info :: wall_info where
  "unit_info = \<lparr>info_id = 0, info_area = 1, info_confidence = 95 / 100,
     info_wall_type = main_wall, info_bbox = [0, 0, 1, 1], info_area_percentage = 100\<rparr>"

section \<open>Classifier\<close>

lemma classify_scores:
  "classify_wall_advanced b shp = Inr (wt, sc) \<Longrightarrow>
     (wt = main_wall \<and> sc = 95 / 100) \<or> (wt = accent_wall \<and> sc = 75 / 100)
     \<or> (wt = rejected \<and> sc = 0) \<or> (wt = background \<and> sc = 0)"
  by (cases shp) (auto simp add: classify_wall_advanced_def split: if_splits)

lemma classify_edge_example:
  "classify_wall_advanced (0, 0, 21, 7) (14, 50) = Inr (main_wall, 95 / 100)"
  by (simp add: classify_wall_advanced_def area_ratio_def aspect_ratio_def touches_left_def
      edge_margin_def bbox_height_def)

text \<open>
  C2. The main-wall rule is the first rule tried: the classifier returns (main_wall, 0.95)
  exactly when the image has pixels, the area ratio is above 0.20, the aspect ratio is below
  3.5, the box touches the left or the right edge and its height is above 0.4 of the image
  height. A box with area ratio 0.21, aspect ratio 3.0, at the left edge and half the image
  high is a main wall; a box with area ratio 0.05 is rejected with score 0, whatever its
  other fields.
\<close>

theorem classify_main_wall_first_match:
  "(classify_wall_advanced b (img_h, img_w) = Inr (main_wall, 95 / 100) \<longleftrightarrow>
      img_w * img_h \<noteq> 0 \<and> area_ratio b (img_h, img_w) > 20 / 100 \<and> aspect_ratio b < 35 / 10
      \<and> (touches_left b \<or> touches_right b (img_h, img_w))
      \<and> real_of_int (bbox_height b) > 4 / 10 * real img_h)
   \<and> (img_w * img_h \<noteq> 0 \<and> area_ratio b (img_h, img_w) = 21 / 100 \<and> aspect_ratio b = 3
        \<and> touches_left b \<and> real_of_int (bbox_height b) = 5 / 10 * real img_h
      \<longrightarrow> classify_wall_advanced b (img_h, img_w) = Inr (main_wall, 95 / 100))
   \<and> (img_w * img_h \<noteq> 0 \<and> area_ratio b (img_h, img_w) = 5 / 100
      \<longrightarrow> classify_wall_advanced b (img_h, img_w) = Inr (rejected, 0))"
  by (auto simp add: classify_wall_advanced_def)

theorem classify_main_wall_first_match_witness:
  "classify_wall_advanced (0, 0, 21, 7) (14, 50) = Inr (main_wall, 95 / 100)
   \<and> area_ratio (0, 0, 21, 7) (14, 50) = 21 / 100 \<and> aspect_ratio (0, 0, 21, 7) = 3
   \<and> touches_left (0, 0, 21, 7) \<and> real_of_int (bbox_height (0, 0, 21, 7)) = 5 / 10 * real (14::nat)
   \<and> area_ratio (300, 300, 5, 1) (10, 10) = 5 / 100
   \<and> classify_wall_advanced (300, 300, 5, 1) (10, 10) = Inr (rejected, 0)"
proof -
  have a: "area_ratio (0, 0, 21, 7) (14, 50) = 21 / 100"
    by (simp add: area_ratio_def)
  have b: "aspect_ratio (0, 0, 21, 7) = 3"
    by (simp add: aspect_ratio_def)
  have c: "touches_left (0, 0, 21, 7)"
    by (simp add: touches_left_def edge_margin_def)
  have d: "real_of_int (bbox_height (0, 0, 21, 7)) = 5 / 10 * real (14::nat)"
    by (simp add: bbox_height_def)
  have e: "area_ratio (300, 300, 5, 1) (10, 10) = 5 / 100"
    by (simp add: area_ratio_def)
  from classify_main_wall_first_match [of "(0, 0, 21, 7)" 14 50] a b c d
  have m: "classify_wall_advanced (0, 0, 21, 7) (14, 50) = Inr (main_wall, 95 / 100)"
    by simp
  from classify_main_wall_first_match [of "(300, 300, 5, 1)" 10 10] e
  have r: "classify_wall_advanced (300, 300, 5, 1) (10, 10) = Inr (rejected, 0)"
    by simp
  from a b c d e m r show ?thesis by simp
qed

section \<open>Detection\<close>

lemma process_mask_Some:
  "process_mask shp md = Some seg \<longleftrightarrow>
     length (bbox_raw md) \<ge> 4 \<and>
     (\<exists>wt sc. classify_wall_advanced (int_bbox (bbox_raw md)) shp = Inr (wt, sc) \<and> sc \<ge> 5 / 10
        \<and> seg = \<lparr>mask = segmentation md, area = mask_sum (segmentation md),
                   bbox = int_bbox (bbox_raw md), confidence = stability_score md * sc,
                   wall_type = wt\<rparr>)"
  by (auto simp add: process_mask_def Let_def split: sum.splits prod.splits)

lemma process_mask_type:
  assumes "process_mask shp md = Some seg"
  shows "(wall_type seg = main_wall \<and> confidence seg = stability_score md * (95 / 100))
       \<or> (wall_type seg = accent_wall \<and> confidence seg = stability_score md * (75 / 100))"
proof -
  from assms obtain wt sc where
    c: "classify_wall_advanced (int_bbox (bbox_raw md)) shp = Inr (wt, sc)" and s: "sc \<ge> 5 / 10"
    and seg: "wall_type seg = wt" "confidence seg = stability_score md * sc"
    unfolding process_mask_Some by auto
  from classify_scores [OF c] s seg show ?thesis by auto
qed

lemma set_sort_by_importance: "set (sort_by_importance xs) = set xs"
  by (simp add: sort_by_importance_def)

lemma detect_members:
  assumes "detect_walls_improved ishape gen = Inr (segs, sf)" and "seg \<in> set segs"
  shows "\<exists>md shp. process_mask shp md = Some seg"
  using assms
  by (fastforce simp add: detect_walls_improved_def set_sort_by_importance List.map_filter_def
      split: sum.splits prod.splits option.splits)

lemma int_bbox_edge: "int_bbox [0, 0, 21, 7] = (0, 0, 21, 7)"
  by (simp add: int_bbox_def py_int_def)

lemma process_edge_proposal:
  "process_mask (14, 50) (edge_proposal s)
     = Some \<lparr>mask = [[True]], area = 1, bbox = (0, 0, 21, 7), confidence = s * (95 / 100),
             wall_type = main_wall\<rparr>"
  by (simp add: process_mask_def edge_proposal_def int_bbox_edge classify_edge_example
      mask_sum_def)

lemma preprocess_small: "preprocess_shape (14, 50) = Inr ((14, 50), 1)"
  by (simp add: preprocess_shape_def)

lemma detect_edge_proposal:
  "detect_walls_improved (14, 50) (Some [edge_proposal s])
     = Inr ([\<lparr>mask = [[True]], area = 1, bbox = (0, 0, 21, 7), confidence = s * (95 / 100),
               wall_type = main_wall\<rparr>], 1)"
  by (simp add: detect_walls_improved_def preprocess_small List.map_filter_def
      process_edge_proposal sort_by_importance_def)

text \<open>
  C1, as the code has it. A proposal is retained exactly when its bounding box has four
  numbers and its classification score alone is at least 0.5; the stability score does not
  enter the test. The retained segment is a main wall with confidence 0.95 times the
  stability score, or an accent wall with confidence 0.75 times the stability score, so
  detection returns main walls and accent walls only. For a stability score of at least 2/3
  the test agrees with the combined confidence being at least 0.5.
\<close>

theorem retained_iff_classification_score:
  "(process_mask shp md \<noteq> None \<longleftrightarrow>
      length (bbox_raw md) \<ge> 4 \<and>
      (\<exists>wt sc. classify_wall_advanced (int_bbox (bbox_raw md)) shp = Inr (wt, sc) \<and> sc \<ge> 5 / 10))
   \<and> (\<forall>seg. process_mask shp md = Some seg \<longrightarrow>
         (wall_type seg = main_wall \<and> confidence seg = stability_score md * (95 / 100))
       \<or> (wall_type seg = accent_wall \<and> confidence seg = stability_score md * (75 / 100)))
   \<and> (\<forall>segs sf. detect_walls_improved ishape gen = Inr (segs, sf) \<longrightarrow>
         (\<forall>seg \<in> set segs. wall_type seg = main_wall \<or> wall_type seg = accent_wall))
   \<and> (\<forall>wt sc. length (bbox_raw md) \<ge> 4 \<and> stability_score md \<ge> 2 / 3
         \<and> classify_wall_advanced (int_bbox (bbox_raw md)) shp = Inr (wt, sc)
       \<longrightarrow> (process_mask shp md \<noteq> None \<longleftrightarrow> stability_score md * sc \<ge> 5 / 10))"
proof (intro conjI allI ballI impI)
  show "process_mask shp md \<noteq> None \<longleftrightarrow>
      length (bbox_raw md) \<ge> 4 \<and>
      (\<exists>wt sc. classify_wall_advanced (int_bbox (bbox_raw md)) shp = Inr (wt, sc) \<and> sc \<ge> 5 / 10)"
    by (auto simp add: process_mask_def Let_def split: sum.splits prod.splits)
next
  fix seg assume "process_mask shp md = Some seg"
  then show "(wall_type seg = main_wall \<and> confidence seg = stability_score md * (95 / 100))
       \<or> (wall_type seg = accent_wall \<and> confidence seg = stability_score md * (75 / 100))"
    by (rule process_mask_type)
next
  fix segs sf seg
  assume "detect_walls_improved ishape gen = Inr (segs, sf)" and "seg \<in> set segs"
  then obtain md' shp' where "process_mask shp' md' = Some seg"
    using detect_members by blast
  from process_mask_type [OF this]
  show "wall_type seg = main_wall \<or> wall_type seg = accent_wall" by blast
next
  fix wt sc
  assume h: "length (bbox_raw md) \<ge> 4 \<and> stability_score md \<ge> 2 / 3
         \<and> classify_wall_advanced (int_bbox (bbox_raw md)) shp = Inr (wt, sc)"
  then have c: "classify_wall_advanced (int_bbox (bbox_raw md)) shp = Inr (wt, sc)" by simp
  from h have r: "process_mask shp md \<noteq> None \<longleftrightarrow> sc \<ge> 5 / 10"
    by (simp add: process_mask_def Let_def)
  from h have st: "stability_score md \<ge> 2 / 3" by simp
  from classify_scores [OF c] have "sc = 95 / 100 \<or> sc = 75 / 100 \<or> sc = 0" by blast
  then have "sc \<ge> 5 / 10 \<longleftrightarrow> stability_score md * sc \<ge> 5 / 10"
  proof (elim disjE)
    assume "sc = 95 / 100"
    with st show ?thesis by (simp only:) simp
  next
    assume "sc = 75 / 100"
    with st show ?thesis by (simp only:) simp
  next
    assume "sc = 0"
    then show ?thesis by simp
  qed
  with r show "process_mask shp md \<noteq> None \<longleftrightarrow> stability_score md * sc \<ge> 5 / 10" by simp
qed

theorem retained_iff_classification_score_witness:
  "length (bbox_raw (edge_proposal (9 / 10))) \<ge> 4
   \<and> stability_score (edge_proposal (9 / 10)) \<ge> 2 / 3
   \<and> classify_wall_advanced (int_bbox (bbox_raw (edge_proposal (9 / 10)))) (14, 50)
       = Inr (main_wall, 95 / 100)
   \<and> process_mask (14, 50) (edge_proposal (9 / 10))
       = Some \<lparr>mask = [[True]], area = 1, bbox = (0, 0, 21, 7), confidence = 9 / 10 * (95 / 100),
               wall_type = main_wall\<rparr>
   \<and> detect_walls_improved (14, 50) (Some [edge_proposal (9 / 10)])
       = Inr ([\<lparr>mask = [[True]], area = 1, bbox = (0, 0, 21, 7),
                 confidence = 9 / 10 * (95 / 100), wall_type = main_wall\<rparr>], 1)
   \<and> wall_type \<lparr>mask = [[True]], area = 1, bbox = (0, 0, 21, 7),
         confidence = 9 / 10 * (95 / 100), wall_type = main_wall\<rparr> = main_wall
   \<and> process_mask (14, 50) (edge_proposal (9 / 10)) \<noteq> None
   \<and> stability_score (edge_proposal (9 / 10)) * (95 / 100) \<ge> 5 / 10"
  using retained_iff_classification_score
    [of "(14, 50)" "edge_proposal (9 / 10)" "(14, 50)" "Some [edge_proposal (9 / 10)]"]
  by (simp add: process_edge_proposal detect_edge_proposal)
    (simp add: edge_proposal_def int_bbox_edge classify_edge_example)

theorem retained_below_combined_threshold_counterexample:
  "process_mask (14, 50) (edge_proposal (5 / 10))
     = Some \<lparr>mask = [[True]], area = 1, bbox = (0, 0, 21, 7), confidence = 19 / 40,
             wall_type = main_wall\<rparr>
   \<and> stability_score (edge_proposal (5 / 10)) = 5 / 10
   \<and> classify_wall_advanced (int_bbox (bbox_raw (edge_proposal (5 / 10)))) (14, 50)
       = Inr (main_wall, 95 / 100)
   \<and> \<not> ((5 / 10 :: real) * (95 / 100) \<ge> 5 / 10)"
  by (simp add: process_edge_proposal)
    (simp add: edge_proposal_def int_bbox_edge classify_edge_example)

section \<open>Order of the detected walls\<close>

lemma sort_by_importance_sorted:
  "sorted_wrt (\<lambda>a b. importance b \<le> importance a) (sort_by_importance xs)"
proof -
  have "sorted (map importance (sort_key importance (rev xs)))"
    by (rule sorted_sort_key)
  then show ?thesis
    by (simp add: sort_by_importance_def sorted_map sorted_wrt_rev)
qed

lemma sort_by_importance_stable:
  "filter (\<lambda>x. importance x = k) (sort_by_importance xs) = filter (\<lambda>x. importance x = k) xs"
proof -
  have "filter (\<lambda>x. importance x = k) (sort_by_importance xs)
          = rev (filter (\<lambda>x. importance x = k) (sort_key importance (rev xs)))"
    by (simp add: sort_by_importance_def rev_filter)
  also have "\<dots> = rev (filter (\<lambda>x. importance x = k) (rev xs))"
    by (simp only: sort_key_stable)
  also have "\<dots> = filter (\<lambda>x. importance x = k) xs"
    by (simp add: rev_filter)
  finally show ?thesis .
qed

lemma mset_sort_by_importance: "mset (sort_by_importance xs) = mset xs"
  by (simp add: sort_by_importance_def)

lemma detect_sorted:
  assumes "detect_walls_improved ishape gen = Inr (out, sf)"
  shows "sorted_wrt (\<lambda>a b. importance b \<le> importance a) out"
  using assms
  by (auto simp add: detect_walls_improved_def sort_by_importance_sorted
      split: sum.splits prod.splits option.splits)

lemma importance_le:
  "importance b \<le> importance a \<longleftrightarrow>
     type_priority (wall_type b) < type_priority (wall_type a)
     \<or> (type_priority (wall_type b) = type_priority (wall_type a)
        \<and> real_of_int (area b) * confidence b \<le> real_of_int (area a) * confidence a)"
  by (auto simp add: importance_def less_eq_prod_def)

lemma priority_main: "type_priority t \<le> 3" "type_priority t = 3 \<longleftrightarrow> t = main_wall"
  by (simp_all add: type_priority_def)

text \<open>
  C5. In the list detection returns, a segment is never followed by one of higher type
  priority (main wall 3, accent wall 2, anything else 1), and among segments of equal
  priority the product of area and confidence never increases; so every main wall precedes
  every accent wall. The sort permutes the retained segments, and keeps segments with equal
  keys in the order they had, so the result is determined by the input.
\<close>

theorem detection_order:
  assumes "detect_walls_improved ishape gen = Inr (out, sf)"
  shows "(\<forall>i j. i < j \<and> j < length out \<longrightarrow>
      (let a = out ! i; b = out ! j
       in type_priority (wall_type b) < type_priority (wall_type a)
          \<or> (type_priority (wall_type b) = type_priority (wall_type a)
             \<and> real_of_int (area b) * confidence b \<le> real_of_int (area a) * confidence a)))
   \<and> (\<forall>i j. i < j \<and> j < length out \<and> wall_type (out ! j) = main_wall
       \<longrightarrow> wall_type (out ! i) = main_wall)
   \<and> mset (sort_by_importance xs) = mset xs
   \<and> filter (\<lambda>x. importance x = k) (sort_by_importance xs) = filter (\<lambda>x. importance x = k) xs"
proof -
  have ord: "importance (out ! j) \<le> importance (out ! i)" if "i < j" "j < length out" for i j
    using sorted_wrt_nth_less [OF detect_sorted [OF assms] that] .
  have 1: "\<forall>i j. i < j \<and> j < length out \<longrightarrow>
      (let a = out ! i; b = out ! j
       in type_priority (wall_type b) < type_priority (wall_type a)
          \<or> (type_priority (wall_type b) = type_priority (wall_type a)
             \<and> real_of_int (area b) * confidence b \<le> real_of_int (area a) * confidence a))"
    using ord by (simp add: Let_def importance_le)
  have 2: "\<forall>i j. i < j \<and> j < length out \<and> wall_type (out ! j) = main_wall
       \<longrightarrow> wall_type (out ! i) = main_wall"
  proof (intro allI impI)
    fix i j assume h: "i < j \<and> j < length out \<and> wall_type (out ! j) = main_wall"
    then have "importance (out ! j) \<le> importance (out ! i)" using ord by blast
    then have "type_priority (wall_type (out ! j)) \<le> type_priority (wall_type (out ! i))"
      by (auto simp add: importance_le)
    with h have "3 \<le> type_priority (wall_type (out ! i))" by (simp add: type_priority_def)
    with priority_main [of "wall_type (out ! i)"] show "wall_type (out ! i) = main_wall"
      by simp
  qed
  from 1 2 show ?thesis
    by (simp add: mset_sort_by_importance sort_by_importance_stable)
qed

lemma room_boxes:
  "int_bbox [60, 10, 60, 50] = (60, 10, 60, 50)" "int_bbox [0, 0, 100, 60] = (0, 0, 100, 60)"
  by (simp_all add: int_bbox_def py_int_def)

lemma room_classes:
  "classify_wall_advanced (60, 10, 60, 50) (100, 200) = Inr (accent_wall, 75 / 100)"
  "classify_wall_advanced (0, 0, 100, 60) (100, 200) = Inr (main_wall, 95 / 100)"
  by (simp_all add: classify_wall_advanced_def area_ratio_def aspect_ratio_def touches_left_def
      touches_right_def edge_margin_def bbox_height_def position_x_def position_y_def)

lemma room_retained:
  "List.map_filter (process_mask (100, 200)) room_proposals
     = rev room_walls"
  by (simp add: List.map_filter_def room_proposals_def room_proposal_def process_mask_def
      room_boxes room_classes mask_sum_def room_walls_def)

lemma room_sorted:
  "sort_by_importance (rev room_walls) = room_walls"
  by (simp add: sort_by_importance_def room_walls_def importance_def type_priority_def
      less_eq_prod_def)

lemma detect_room: "detect_walls_improved (100, 200) (Some room_proposals) = Inr (room_walls, 1)"
  by (simp add: detect_walls_improved_def preprocess_shape_def room_retained room_sorted)

theorem detection_order_witness:
  "detect_walls_improved (100, 200) (Some room_proposals) = Inr (room_walls, 1)
   \<and> (1::nat) < 2 \<and> 2 < length room_walls
   \<and> wall_type (room_walls ! 1) = main_wall
   \<and> wall_type (room_walls ! 0) = main_wall
   \<and> type_priority (wall_type (room_walls ! 2)) < type_priority (wall_type (room_walls ! 1))
   \<and> real_of_int (area (room_walls ! 1)) * confidence (room_walls ! 1)
       \<le> real_of_int (area (room_walls ! 0)) * confidence (room_walls ! 0)"
  using detection_order [OF detect_room, of "[]"]
  by (simp add: detect_room) (simp add: room_walls_def type_priority_def)

section \<open>Mask rescaler\<close>











section \<open>Paint compositor: opacity by wall type\<close>

lemma chan_128: "chan 128 = 128"
  by (simp add: chan_def)

lemma luma_gray: "luma (128, 128, 128) = 128"
  by (simp add: luma_def chan_128 to_uint8_def py_int_def)

lemma bf_gray: "brightness_factor luma [(128, 128, 128)] = 1"
  by (simp add: brightness_factor_def luma_gray chan_128 np_clip_def)

lemma unit_shape:
  "shape2 (mask (unit_segment t)) = shape2 gray_image"
  "mask_sum (mask (unit_segment t)) \<noteq> 0"
  "select_pixels (mask (unit_segment t)) gray_image = [(128, 128, 128)]"
  by (simp_all add: unit_segment_def gray_image_def shape2_def mask_sum_def)

lemma blend_accent: "blend_pixel (255, 0, 0) (9 / 10) (128, 128, 128) = (242, 12, 12)"
  by (simp add: blend_pixel_def chan_128 to_uint8_def py_int_def)

lemma blend_background: "blend_pixel (255, 0, 0) (6 / 10) (128, 128, 128) = (204, 51, 51)"
  by (simp add: blend_pixel_def chan_128 to_uint8_def py_int_def)

lemma blend_main: "blend_pixel (255, 0, 0) 1 (128, 128, 128) = (255, 0, 0)"
  by (simp add: blend_pixel_def chan_128 to_uint8_def py_int_def)

lemma adjust_red: "adjust_color (255, 0, 0) 1 = (255, 0, 0)"
  by (simp add: adjust_color_def np_clip_def)

lemma paint_unit:
  "paint_wall luma (255, 0, 0) 1 gray_image (unit_segment t)
     = [[blend_pixel (255, 0, 0) (wall_opacity 1 t) (128, 128, 128)]]"
  by (simp add: paint_wall_def unit_shape bf_gray adjust_red)
     (simp add: unit_segment_def gray_image_def)

text \<open>
  C8. A segment that is painted (its mask has the shape of the image and is not empty) is
  blended with the opacity \<open>wall_opacity\<close>: the requested opacity times 0.9 for an accent
  wall, times 0.6 for the other non-main type a segment can carry, background, and the
  requested opacity itself for a main wall.
\<close>

theorem effective_opacity_by_wall_type:
  assumes "shape2 (mask seg) = shape2 img" and "mask_sum (mask seg) \<noteq> 0"
  shows "paint_wall gray color opacity img seg
           = assign_pixels
               (blend_pixel (adjust_color color (brightness_factor gray (select_pixels (mask seg) img)))
                  (wall_opacity opacity (wall_type seg)))
               (mask seg) img
         \<and> (wall_type seg = accent_wall \<longrightarrow> wall_opacity opacity (wall_type seg) = opacity * (9 / 10))
         \<and> (wall_type seg = background \<longrightarrow> wall_opacity opacity (wall_type seg) = opacity * (6 / 10))
         \<and> (wall_type seg = main_wall \<longrightarrow> wall_opacity opacity (wall_type seg) = opacity)"
  using assms by (simp add: paint_wall_def wall_opacity_def Let_def)

theorem effective_opacity_by_wall_type_witness:
  "shape2 (mask (unit_segment accent_wall)) = shape2 gray_image
   \<and> mask_sum (mask (unit_segment accent_wall)) \<noteq> 0
   \<and> wall_opacity (8 / 10) (wall_type (unit_segment accent_wall)) = 8 / 10 * (9 / 10)
   \<and> wall_opacity (8 / 10) (wall_type (unit_segment background)) = 8 / 10 * (6 / 10)
   \<and> wall_opacity (8 / 10) (wall_type (unit_segment main_wall)) = 8 / 10"
  using effective_opacity_by_wall_type
      [of "unit_segment accent_wall" gray_image luma "(255, 0, 0)" "8 / 10"]
    effective_opacity_by_wall_type
      [of "unit_segment background" gray_image luma "(255, 0, 0)" "8 / 10"]
    effective_opacity_by_wall_type
      [of "unit_segment main_wall" gray_image luma "(255, 0, 0)" "8 / 10"]
  by (simp add: unit_shape) (simp add: unit_segment_def)

section \<open>Wall filters of a paint request\<close>

lemma swap_swap: "cvtColor_swap (cvtColor_swap img) = img"
  by (simp add: cvtColor_swap_def swap_channels_def comp_def split_def)

lemma unit_lookup: "cache_lookup (unit_cache t) ''k'' = Some (unit_entry t)"
  by (simp add: unit_cache_def cache_lookup_def cache_store_def)

lemma main_only_none:
  assumes "\<forall>w \<in> set segs. wall_type w \<noteq> main_wall"
  shows "apply_smart_paint gray img segs color opacity True = img"
proof -
  from assms have "filter (\<lambda>w. wall_type w = main_wall) segs = []"
    by (simp add: filter_empty_conv)
  then show ?thesis by (simp add: apply_smart_paint_def swap_swap)
qed

lemma filter_walls_all: "filter_walls [unit_segment t] [] = Inr [unit_segment t]"
  by (simp add: filter_walls_def)

lemma filter_walls_beyond: "filter_walls [unit_segment t] [5] = Inr []"
  by (simp add: filter_walls_def)

lemma filter_walls_negative: "filter_walls [unit_segment t] [-3] = Inl IndexError"
  by (simp add: filter_walls_def py_index_def)

text \<open>
  C3, as the code has it. When "main walls only" is requested and none of the selected
  segments is a main wall, the compositor returns the original image and the request
  succeeds with it. When the wall selection itself is empty (every index of the subset is
  beyond the cached list) the handler answers the error "No valid walls to paint".
\<close>

theorem empty_filter_outcomes:
  "((\<forall>w \<in> set segs. wall_type w \<noteq> main_wall)
      \<longrightarrow> apply_smart_paint gray img segs color opacity True = img)
   \<and> (cache_lookup c k = Some e \<and> k \<noteq> [] \<and> paint_image_hash req = Some k \<and> mainWallsOnly req
        \<and> filter_walls (wall_segments e) (wall_ids req) = Inr walls \<and> walls \<noteq> []
        \<and> (\<forall>w \<in> set walls. wall_type w \<noteq> main_wall)
      \<longrightarrow> paint_instant gray True c req = Inr (PaintOk (original_image e) (length walls)))
   \<and> (cache_lookup c k = Some e \<and> k \<noteq> [] \<and> paint_image_hash req = Some k
        \<and> filter_walls (wall_segments e) (wall_ids req) = Inr []
      \<longrightarrow> paint_instant gray True c req = Inl (HttpError 400 ''No valid walls to paint''))"
  by (simp add: paint_instant_def main_only_none)

theorem empty_filter_outcomes_witness:
  "wall_type (unit_segment accent_wall) = accent_wall
   \<and> apply_smart_paint luma gray_image [unit_segment accent_wall] (255, 0, 0) (7 / 10) True = gray_image
   \<and> cache_lookup (unit_cache accent_wall) ''k'' = Some (unit_entry accent_wall)
   \<and> filter_walls (wall_segments (unit_entry accent_wall)) [] = Inr [unit_segment accent_wall]
   \<and> paint_instant luma True (unit_cache accent_wall) (unit_paint [] (7 / 10) True)
       = Inr (PaintOk gray_image 1)
   \<and> filter_walls (wall_segments (unit_entry accent_wall)) [5] = Inr []
   \<and> paint_instant luma True (unit_cache accent_wall) (unit_paint [5] (7 / 10) True)
       = Inl (HttpError 400 ''No valid walls to paint'')"
proof -
  have n: "\<forall>w \<in> set [unit_segment accent_wall]. wall_type w \<noteq> main_wall"
    by (simp add: unit_segment_def)
  have s: "wall_segments (unit_entry accent_wall) = [unit_segment accent_wall]"
    "original_image (unit_entry accent_wall) = gray_image"
    by (simp_all add: unit_entry_def)
  from empty_filter_outcomes [of "[unit_segment accent_wall]" luma gray_image "(255, 0, 0)" "7 / 10"
      "unit_cache accent_wall" "''k''" "unit_entry accent_wall" "unit_paint [] (7 / 10) True"
      "[unit_segment accent_wall]"] n
  have a: "apply_smart_paint luma gray_image [unit_segment accent_wall] (255, 0, 0) (7 / 10) True = gray_image"
    and b: "paint_instant luma True (unit_cache accent_wall) (unit_paint [] (7 / 10) True)
       = Inr (PaintOk gray_image 1)"
    by (simp_all add: unit_lookup s filter_walls_all unit_paint_def)
  from empty_filter_outcomes [of "[]" luma gray_image "(255, 0, 0)" "7 / 10"
      "unit_cache accent_wall" "''k''" "unit_entry accent_wall" "unit_paint [5] (7 / 10) True" "[]"]
  have c: "paint_instant luma True (unit_cache accent_wall) (unit_paint [5] (7 / 10) True)
       = Inl (HttpError 400 ''No valid walls to paint'')"
    by (simp add: unit_lookup s filter_walls_beyond unit_paint_def)
  have t: "wall_type (unit_segment accent_wall) = accent_wall"
    by (simp add: unit_segment_def)
  from t a b c show ?thesis by (simp add: unit_lookup s filter_walls_all filter_walls_beyond)
qed

theorem index_subset_selecting_nothing_counterexample:
  "cache_lookup (unit_cache main_wall) ''k'' = Some (unit_entry main_wall)
   \<and> filter_walls (wall_segments (unit_entry main_wall)) [5] = Inr []
   \<and> paint_instant luma True (unit_cache main_wall) (unit_paint [5] (7 / 10) False)
       = Inl (HttpError 400 ''No valid walls to paint'')"
  by (simp add: unit_lookup paint_instant_def unit_paint_def)
     (simp add: unit_entry_def filter_walls_beyond)

text \<open>
  For indices that are not negative the selection keeps, in the order of the request, the
  segments at the indices below the length of the cached list and ignores the others.
\<close>

lemma select_walls_nonneg:
  assumes "\<forall>i \<in> set ids. 0 \<le> i"
  shows "select_walls segs ids
           = Inr (map (\<lambda>i. segs ! nat i) (filter (\<lambda>i. i < int (length segs)) ids))"
  using assms by (induction ids) (simp_all add: py_index_def)

text \<open>
  C9, at an index below minus the length of the cached list: the guard of the selection
  lets it through, the indexing raises IndexError, and the request is answered with the
  error of the handler's \<open>except\<close> instead of painting the remaining walls.
\<close>

theorem negative_index_raises:
  "paint_instant luma True (unit_cache main_wall) (unit_paint [0, -3] (7 / 10) False)
       = Inl (HttpError 500 ''Painting failed: list index out of range'')"
  by (simp add: unit_lookup paint_instant_def unit_paint_def)
     (simp add: unit_entry_def filter_walls_def py_index_def)

section \<open>Paint compositor: opacity 0 and opacity 1\<close>

lemma py_int_of_nat: "py_int (real n) = int n"
  by (simp add: py_int_def)

lemma to_uint8_chan: "to_uint8 (chan p) = p"
  unfolding to_uint8_def chan_def py_int_of_nat by simp

lemma blend_zero: "blend_pixel adj 0 p = p"
  by (cases p; cases adj) (simp add: blend_pixel_def to_uint8_chan)

lemma wall_opacity_zero: "wall_opacity 0 t = 0"
  by (simp add: wall_opacity_def)

lemma assign_row_id: "assign_row (\<lambda>p. p) ms ps = ps"
  by (induction "\<lambda>p::'a. p" ms ps rule: assign_row.induct) simp_all

lemma assign_pixels_id: "assign_pixels (\<lambda>p. p) m rs = rs"
  by (induction "\<lambda>p::'a. p" m rs rule: assign_pixels.induct) (simp_all add: assign_row_id)

lemma paint_wall_zero: "paint_wall gray color 0 img seg = img"
proof -
  have "blend_pixel adj 0 = (\<lambda>p. p)" for adj
    by (rule ext) (rule blend_zero)
  then show ?thesis
    by (simp add: paint_wall_def Let_def wall_opacity_zero assign_pixels_id)
qed

lemma foldl_paint_zero: "foldl (paint_wall gray color 0) img segs = img"
  by (induction segs) (simp_all add: paint_wall_zero)

lemma apply_paint_zero: "apply_smart_paint gray img segs color 0 flag = img"
  by (simp add: apply_smart_paint_def Let_def foldl_paint_zero swap_swap)

lemma length_assign_row: "length (assign_row f ms ps) = length ps"
  by (induction f ms ps rule: assign_row.induct) simp_all

lemma assign_row_nth:
  "j < length ps \<Longrightarrow> j < length ms \<Longrightarrow> ms ! j \<Longrightarrow> assign_row f ms ps ! j = f (ps ! j)"
proof (induction f ms ps arbitrary: j rule: assign_row.induct)
  case (1 f m ms p ps)
  then show ?case by (cases j) simp_all
qed simp_all

lemma assign_pixels_nth:
  "i < length rs \<Longrightarrow> i < length m \<Longrightarrow> assign_pixels f m rs ! i = assign_row f (m ! i) (rs ! i)"
proof (induction f m rs arbitrary: i rule: assign_pixels.induct)
  case (1 f mr mrs r rs)
  then show ?case by (cases i) simp_all
qed simp_all

lemma py_int_of_int: "py_int (real_of_int n) = n"
  by (simp add: py_int_def)

lemma blend_one:
  assumes "0 \<le> r" "r \<le> 255" "0 \<le> g" "g \<le> 255" "0 \<le> b" "b \<le> 255"
  shows "blend_pixel (adjust_color (r, g, b) 1) 1 p = (word_of_int r, word_of_int g, word_of_int b)"
  using assms
  by (cases p) (simp add: blend_pixel_def adjust_color_def np_clip_def to_uint8_def py_int_of_int)

lemma length_assign_pixels: "length (assign_pixels f m rs) = length rs"
  by (induction f m rs rule: assign_pixels.induct) simp_all

lemma length_assign_pixels_row:
  "i < length rs \<Longrightarrow> length (assign_pixels f m rs ! i) = length (rs ! i)"
proof (induction f m rs arbitrary: i rule: assign_pixels.induct)
  case (1 f mr mrs r rs)
  then show ?case by (cases i) (simp_all add: length_assign_row)
qed simp_all

lemma assign_under_mask:
  assumes "i < length rs" "j < length (rs ! i)" "i < length m" "j < length (m ! i)" "m ! i ! j"
  shows "assign_pixels f m rs ! i ! j = f (rs ! i ! j)"
  using assms by (simp add: assign_pixels_nth assign_row_nth)

lemma mask_sum_pos:
  assumes "i < length m" "j < length (m ! i)" "m ! i ! j"
  shows "mask_sum m \<noteq> 0"
proof -
  from assms(1) have "m ! i \<in> set m"
    by simp
  moreover have "True \<in> set (m ! i)"
    using nth_mem [OF assms(2)] assms(3) by simp
  ultimately have "True \<in> set (concat m)"
    by auto
  then have "filter (\<lambda>c. c) (concat m) \<noteq> []"
    by (auto simp add: filter_empty_conv)
  then show ?thesis by (simp add: mask_sum_def)
qed

lemma wall_opacity_main: "wall_opacity opacity main_wall = opacity"
  by (simp add: wall_opacity_def)

lemma paint_main_under_mask:
  assumes "shape2 (mask seg) = shape2 work" and "wall_type seg = main_wall"
    and "brightness_factor gray (select_pixels (mask seg) work) = 1"
    and "0 \<le> r" "r \<le> 255" "0 \<le> g" "g \<le> 255" "0 \<le> b" "b \<le> 255"
    and "i < length work" "j < length (work ! i)"
    and "i < length (mask seg)" "j < length (mask seg ! i)" "mask seg ! i ! j"
  shows "paint_wall gray (r, g, b) 1 work seg ! i ! j
           = (word_of_int r, word_of_int g, word_of_int b)"
proof -
  from assms(12-14) have "mask_sum (mask seg) \<noteq> 0" by (rule mask_sum_pos)
  with assms(1-3) have "paint_wall gray (r, g, b) 1 work seg
      = assign_pixels (blend_pixel (adjust_color (r, g, b) 1) 1) (mask seg) work"
    by (simp add: paint_wall_def wall_opacity_main)
  with assms(10-14) have "paint_wall gray (r, g, b) 1 work seg ! i ! j
      = blend_pixel (adjust_color (r, g, b) 1) 1 (work ! i ! j)"
    by (simp add: assign_under_mask)
  with assms(4-9) show ?thesis by (simp add: blend_one)
qed

lemma shape2_swap: "shape2 (cvtColor_swap img) = shape2 img"
  by (cases img) (simp_all add: shape2_def cvtColor_swap_def)

lemma shape2_paint_wall: "length (paint_wall gray color opacity work seg) = length work"
  by (simp add: paint_wall_def Let_def length_assign_pixels)

lemma row_paint_wall:
  "i < length work \<Longrightarrow> length (paint_wall gray color opacity work seg ! i) = length (work ! i)"
  by (simp add: paint_wall_def Let_def length_assign_pixels_row)

lemma swap_nth:
  "i < length img \<Longrightarrow> j < length (img ! i) \<Longrightarrow>
   cvtColor_swap img ! i ! j = swap_channels (img ! i ! j)"
  by (simp add: cvtColor_swap_def)

lemma length_swap: "length (cvtColor_swap img) = length img"
  "i < length img \<Longrightarrow> length (cvtColor_swap img ! i) = length (img ! i)"
  by (simp_all add: cvtColor_swap_def)

lemma apply_single_main:
  assumes "wall_type seg = main_wall"
  shows "apply_smart_paint gray img [seg] color opacity flag
           = cvtColor_swap (paint_wall gray color opacity (cvtColor_swap img) seg)"
  using assms by (simp add: apply_smart_paint_def Let_def)

text \<open>
  C7, as the code has it. With opacity 0 the compositor returns the image it was given,
  every pixel unchanged. With opacity 1, brightness factor 1 and an RGB colour (channels
  from 0 to 255), painting a main wall sets every pixel under its mask to the colour: in the
  working image of the loop, and, for a single segment, in the image returned, whose pixels
  are stored blue first. An accent wall is blended with 0.9 instead, so its pixels do not
  reach the colour.
\<close>

theorem paint_opacity_extremes:
  "apply_smart_paint gray img segs color 0 flag = img
   \<and> (shape2 (mask seg) = shape2 work \<and> wall_type seg = main_wall
        \<and> brightness_factor gray (select_pixels (mask seg) work) = 1
        \<and> 0 \<le> r \<and> r \<le> 255 \<and> 0 \<le> g \<and> g \<le> 255 \<and> 0 \<le> b \<and> b \<le> 255
        \<and> i < length work \<and> j < length (work ! i)
        \<and> i < length (mask seg) \<and> j < length (mask seg ! i) \<and> mask seg ! i ! j
      \<longrightarrow> paint_wall gray (r, g, b) 1 work seg ! i ! j
            = (word_of_int r, word_of_int g, word_of_int b))
   \<and> (shape2 (mask seg) = shape2 img \<and> wall_type seg = main_wall
        \<and> brightness_factor gray (select_pixels (mask seg) (cvtColor_swap img)) = 1
        \<and> 0 \<le> r \<and> r \<le> 255 \<and> 0 \<le> g \<and> g \<le> 255 \<and> 0 \<le> b \<and> b \<le> 255
        \<and> i < length img \<and> j < length (img ! i)
        \<and> i < length (mask seg) \<and> j < length (mask seg ! i) \<and> mask seg ! i ! j
      \<longrightarrow> apply_smart_paint gray img [seg] (r, g, b) 1 flag ! i ! j
            = (word_of_int b, word_of_int g, word_of_int r))"
proof (intro conjI impI)
  show "apply_smart_paint gray img segs color 0 flag = img"
    by (rule apply_paint_zero)
next
  assume "shape2 (mask seg) = shape2 work \<and> wall_type seg = main_wall
        \<and> brightness_factor gray (select_pixels (mask seg) work) = 1
        \<and> 0 \<le> r \<and> r \<le> 255 \<and> 0 \<le> g \<and> g \<le> 255 \<and> 0 \<le> b \<and> b \<le> 255
        \<and> i < length work \<and> j < length (work ! i)
        \<and> i < length (mask seg) \<and> j < length (mask seg ! i) \<and> mask seg ! i ! j"
  then show "paint_wall gray (r, g, b) 1 work seg ! i ! j
            = (word_of_int r, word_of_int g, word_of_int b)"
    by (intro paint_main_under_mask) simp_all
next
  assume h: "shape2 (mask seg) = shape2 img \<and> wall_type seg = main_wall
        \<and> brightness_factor gray (select_pixels (mask seg) (cvtColor_swap img)) = 1
        \<and> 0 \<le> r \<and> r \<le> 255 \<and> 0 \<le> g \<and> g \<le> 255 \<and> 0 \<le> b \<and> b \<le> 255
        \<and> i < length img \<and> j < length (img ! i)
        \<and> i < length (mask seg) \<and> j < length (mask seg ! i) \<and> mask seg ! i ! j"
  let ?work = "cvtColor_swap img"
  from h have p: "paint_wall gray (r, g, b) 1 ?work seg ! i ! j
            = (word_of_int r, word_of_int g, word_of_int b)"
    by (intro paint_main_under_mask) (simp_all add: shape2_swap length_swap)
  from h have l: "i < length (paint_wall gray (r, g, b) 1 ?work seg)"
    "j < length (paint_wall gray (r, g, b) 1 ?work seg ! i)"
    by (simp_all add: shape2_paint_wall row_paint_wall length_swap)
  from h have "apply_smart_paint gray img [seg] (r, g, b) 1 flag
           = cvtColor_swap (paint_wall gray (r, g, b) 1 ?work seg)"
    by (simp add: apply_single_main)
  with l p show "apply_smart_paint gray img [seg] (r, g, b) 1 flag ! i ! j
            = (word_of_int b, word_of_int g, word_of_int r)"
    by (simp add: swap_nth swap_channels_def)
qed

lemma swap_gray: "cvtColor_swap gray_image = gray_image"
  by (simp add: cvtColor_swap_def gray_image_def swap_channels_def)

lemma apply_unit:
  "apply_smart_paint luma gray_image [unit_segment t] (255, 0, 0) 1 False
     = cvtColor_swap [[blend_pixel (255, 0, 0) (wall_opacity 1 t) (128, 128, 128)]]"
  by (simp add: apply_smart_paint_def swap_gray paint_unit)

theorem paint_opacity_extremes_witness:
  "shape2 (mask (unit_segment main_wall)) = shape2 gray_image
   \<and> wall_type (unit_segment main_wall) = main_wall
   \<and> brightness_factor luma (select_pixels (mask (unit_segment main_wall)) (cvtColor_swap gray_image)) = 1
   \<and> (0::nat) < length gray_image \<and> (0::nat) < length (gray_image ! 0)
   \<and> (0::nat) < length (mask (unit_segment main_wall))
   \<and> (0::nat) < length (mask (unit_segment main_wall) ! 0)
   \<and> mask (unit_segment main_wall) ! 0 ! 0
   \<and> apply_smart_paint luma gray_image [unit_segment main_wall] (255, 0, 0) 0 False = gray_image
   \<and> paint_wall luma (255, 0, 0) 1 gray_image (unit_segment main_wall) ! 0 ! 0 = (255, 0, 0)
   \<and> apply_smart_paint luma gray_image [unit_segment main_wall] (255, 0, 0) 1 False ! 0 ! 0
       = (0, 0, 255)"
  using paint_opacity_extremes [of luma gray_image "[unit_segment main_wall]" "(255, 0, 0)" False
      "unit_segment main_wall" gray_image 255 0 0 0 0]
  by (simp add: unit_shape swap_gray bf_gray)
     (simp add: unit_segment_def gray_image_def)

theorem accent_wall_full_opacity_counterexample:
  "wall_type (unit_segment accent_wall) = accent_wall
   \<and> shape2 (mask (unit_segment accent_wall)) = shape2 gray_image
   \<and> mask (unit_segment accent_wall) ! 0 ! 0
   \<and> brightness_factor luma
         (select_pixels (mask (unit_segment accent_wall)) (cvtColor_swap gray_image)) = 1
   \<and> apply_smart_paint luma gray_image [unit_segment accent_wall] (255, 0, 0) 1 False
       = [[(12, 12, 242)]]
   \<and> cvtColor_swap [[(12, 12, 242)]] \<noteq> [[(255, 0, 0)]]"
  by (simp add: apply_unit unit_shape swap_gray bf_gray wall_opacity_def blend_accent)
     (simp add: unit_segment_def cvtColor_swap_def swap_channels_def)

section \<open>Segmentation cache and detection requests\<close>

lemma detect_ok_pixels:
  assumes "detect_walls_improved shp gen = Inr r"
  shows "fst shp * snd shp \<noteq> 0"
  using assms
  by (cases shp) (auto simp add: detect_walls_improved_def preprocess_shape_def
      split: sum.splits if_splits)

lemma detect_stores:
  assumes "cache_lookup c (req_image_hash req) = None" and "req_image req = Some img"
    and "detect_walls_improved (image_shape img) (req_gen req) = Inr (segs, sf)"
    and "segs \<noteq> []"
  shows "detect_walls_only resize True c req
           = (let e = detection_entry img
                        (resize_masks_to_original resize segs (image_shape img) sf)
                        (req_timestamp req) (req_detection_time req)
              in (Inr (DetectOk (length (entry_wall_info e)) (entry_wall_info e) (image_size e)
                         (req_image_hash req) False),
                  cache_store (req_image_hash req) e c))"
proof -
  from detect_ok_pixels [OF assms(3)]
  have "fst (image_shape img) * snd (image_shape img) \<noteq> 0" .
  with assms show ?thesis
    by (simp add: detect_walls_only_def Let_def detection_entry_def)
qed

lemma detect_hit:
  assumes "cache_lookup c (req_image_hash req) = Some e"
  shows "detect_walls_only resize True c req
           = (Inr (DetectOk (length (entry_wall_info e)) (entry_wall_info e) (image_size e)
                     (req_image_hash req) True), c)"
  using assms by (simp add: detect_walls_only_def)

lemma cache_len_store:
  "cache_lookup c K = None \<Longrightarrow> cache_len (cache_store K E c) = Suc (cache_len c)"
  by (simp add: cache_len_def cache_store_def cache_lookup_def fcard_finsert_disjoint
      fmdom_notI)

text \<open>
  C4. Storing an entry under a key and looking the key up gives the entry; after the cache is
  cleared every lookup is absent; the number reported by clearing is the number of keys the
  cache held. In the handlers: a detection that retains walls for an image whose hash is not
  in the cache stores the entry it built under the hash, a following detection request with
  that hash is answered from the cache with the wall list and image size of the entry,
  clearing then reports one entry more than it would have before the detection, and the hash
  is absent afterwards. A detection request whose hash is in the cache is answered from the
  entry found.
\<close>

theorem cache_round_trip:
  "cache_lookup (cache_store K E c) K = Some E
   \<and> (\<forall>k. cache_lookup (snd (clear_cache c)) k = None)
   \<and> fst (clear_cache c) = fcard (fmdom c)
   \<and> (cache_lookup c (req_image_hash req) = None \<and> req_image req = Some img
        \<and> detect_walls_improved (image_shape img) (req_gen req) = Inr (segs, sf) \<and> segs \<noteq> []
        \<and> req_image_hash req' = req_image_hash req
      \<longrightarrow> (let e = detection_entry img
                      (resize_masks_to_original resize segs (image_shape img) sf)
                      (req_timestamp req) (req_detection_time req);
               c' = snd (detect_walls_only resize True c req)
           in fst (detect_walls_only resize True c req)
                = Inr (DetectOk (length (entry_wall_info e)) (entry_wall_info e) (image_size e)
                         (req_image_hash req) False)
              \<and> c' = cache_store (req_image_hash req) e c
              \<and> cache_lookup c' (req_image_hash req) = Some e
              \<and> detect_walls_only resize True c' req'
                  = (Inr (DetectOk (length (entry_wall_info e)) (entry_wall_info e)
                            (image_size e) (req_image_hash req) True), c')
              \<and> fst (clear_cache c') = Suc (fst (clear_cache c))
              \<and> cache_lookup (snd (clear_cache c')) (req_image_hash req) = None))
   \<and> (cache_lookup c (req_image_hash req) = Some E
      \<longrightarrow> detect_walls_only resize True c req
            = (Inr (DetectOk (length (entry_wall_info E)) (entry_wall_info E) (image_size E)
                      (req_image_hash req) True), c))"
proof (intro conjI allI impI)
  show "cache_lookup (cache_store K E c) K = Some E"
    by (simp add: cache_lookup_def cache_store_def)
  show "cache_lookup (snd (clear_cache c)) k = None" for k
    by (simp add: cache_lookup_def clear_cache_def)
  show "fst (clear_cache c) = fcard (fmdom c)"
    by (simp add: clear_cache_def cache_len_def)
next
  assume h: "cache_lookup c (req_image_hash req) = None \<and> req_image req = Some img
        \<and> detect_walls_improved (image_shape img) (req_gen req) = Inr (segs, sf) \<and> segs \<noteq> []
        \<and> req_image_hash req' = req_image_hash req"
  define e where "e = detection_entry img
                      (resize_masks_to_original resize segs (image_shape img) sf)
                      (req_timestamp req) (req_detection_time req)"
  from h have d: "detect_walls_only resize True c req
      = (Inr (DetectOk (length (entry_wall_info e)) (entry_wall_info e) (image_size e)
                (req_image_hash req) False),
         cache_store (req_image_hash req) e c)"
    by (simp add: detect_stores e_def Let_def)
  have l: "cache_lookup (cache_store (req_image_hash req) e c) (req_image_hash req') = Some e"
    using h by (simp add: cache_lookup_def cache_store_def)
  from h have n: "fst (clear_cache (cache_store (req_image_hash req) e c))
      = Suc (fst (clear_cache c))"
    by (simp add: clear_cache_def cache_len_store)
  from h d l n detect_hit [OF l, of resize]
  show "let e = detection_entry img
                      (resize_masks_to_original resize segs (image_shape img) sf)
                      (req_timestamp req) (req_detection_time req);
               c' = snd (detect_walls_only resize True c req)
           in fst (detect_walls_only resize True c req)
                = Inr (DetectOk (length (entry_wall_info e)) (entry_wall_info e) (image_size e)
                         (req_image_hash req) False)
              \<and> c' = cache_store (req_image_hash req) e c
              \<and> cache_lookup c' (req_image_hash req) = Some e
              \<and> detect_walls_only resize True c' req'
                  = (Inr (DetectOk (length (entry_wall_info e)) (entry_wall_info e)
                            (image_size e) (req_image_hash req) True), c')
              \<and> fst (clear_cache c') = Suc (fst (clear_cache c))
              \<and> cache_lookup (snd (clear_cache c')) (req_image_hash req) = None"
    by (simp add: Let_def e_def [symmetric]) (simp add: cache_lookup_def clear_cache_def)
next
  assume "cache_lookup c (req_image_hash req) = Some E"
  then show "detect_walls_only resize True c req
            = (Inr (DetectOk (length (entry_wall_info E)) (entry_wall_info E) (image_size E)
                      (req_image_hash req) True), c)"
    by (rule detect_hit)
qed

lemma gray_shape: "shape2 gray_image = (1, 1)" "image_shape gray_image = (1, 1)"
  by (simp_all add: image_shape_def shape2_def gray_image_def)

lemma preprocess_within:
  "0 < h \<Longrightarrow> 0 < w \<Longrightarrow> max h w \<le> 1024 \<Longrightarrow> preprocess_shape (h, w) = Inr ((h, w), 1)"
  by (auto simp add: preprocess_shape_def)

lemma process_unit: "process_mask (Suc 0, Suc 0) unit_proposal = Some unit_wall"
  by (simp add: process_mask_def unit_proposal_def unit_wall_def int_bbox_def py_int_def
      classify_wall_advanced_def area_ratio_def aspect_ratio_def touches_left_def
      edge_margin_def bbox_height_def mask_sum_def)

lemma detect_unit:
  "detect_walls_improved (image_shape gray_image) (req_gen wall_detection) = Inr ([unit_wall], 1)"
  by (simp add: detect_walls_improved_def gray_shape preprocess_within wall_detection_def
      List.map_filter_def process_unit sort_by_importance_def)

lemma unit_entry_info:
  "entry_wall_info (detection_entry gray_image [unit_wall] ''t'' 2) = [unit_info]"
  "image_size (detection_entry gray_image [unit_wall] ''t'' 2) = (1, 1)"
  by (simp_all add: detection_entry_def make_wall_info_def gray_shape unit_wall_def unit_info_def)

theorem cache_round_trip_witness:
  "cache_lookup fmempty (req_image_hash wall_detection) = None
   \<and> req_image wall_detection = Some gray_image
   \<and> detect_walls_improved (image_shape gray_image) (req_gen wall_detection)
       = Inr ([unit_wall], 1)
   \<and> fst (detect_walls_only nn_resize True fmempty wall_detection)
       = Inr (DetectOk 1 [unit_info] (1, 1) ''k'' False)
   \<and> cache_lookup (snd (detect_walls_only nn_resize True fmempty wall_detection)) ''k''
       = Some (detection_entry gray_image [unit_wall] ''t'' 2)
   \<and> detect_walls_only nn_resize True
         (snd (detect_walls_only nn_resize True fmempty wall_detection)) wall_detection
       = (Inr (DetectOk 1 [unit_info] (1, 1) ''k'' True),
          snd (detect_walls_only nn_resize True fmempty wall_detection))
   \<and> fst (clear_cache (snd (detect_walls_only nn_resize True fmempty wall_detection))) = 1
   \<and> cache_lookup
         (snd (clear_cache (snd (detect_walls_only nn_resize True fmempty wall_detection)))) ''k''
       = None"
proof -
  have h: "cache_lookup fmempty (req_image_hash wall_detection) = None"
    "req_image wall_detection = Some gray_image"
    by (simp_all add: cache_lookup_def wall_detection_def)
  have k: "req_image_hash wall_detection = ''k''" "req_timestamp wall_detection = ''t''"
    "req_detection_time wall_detection = 2"
    by (simp_all add: wall_detection_def)
  have r: "resize_masks_to_original nn_resize [unit_wall] (image_shape gray_image) 1 = [unit_wall]"
    by (simp add: resize_masks_to_original_def)
  have z: "fst (clear_cache fmempty) = 0"
    by (simp add: clear_cache_def cache_len_def)
  from cache_round_trip [of "''k''" "unit_entry main_wall" fmempty wall_detection gray_image
      "[unit_wall]" 1 wall_detection nn_resize]
    h detect_unit
  show ?thesis
    by (auto simp add: Let_def k r z unit_entry_info)
qed

lemma paint_cache_miss:
  "cache_lookup c k = None \<Longrightarrow> paint_image_hash preq = Some k \<Longrightarrow>
   paint_instant gray True c preq
     = Inl (HttpError 400 ''Image not found in cache. Please detect walls first.'')"
  by (simp add: paint_instant_def)

lemma visualize_cache_miss:
  "cache_lookup c k = None \<Longrightarrow>
   visualize_masks resize True c (Some k) = Inl (HttpError 400 ''Image not found in cache'')"
  by (simp add: visualize_masks_def)

lemma detect_none_retained:
  assumes "cache_lookup c (req_image_hash req) = None" and "req_image req = Some img"
    and "detect_walls_improved (image_shape img) (req_gen req) = Inr ([], sf)"
  shows "detect_walls_only resize True c req
           = (Inr (DetectOk 0 [] (snd (shape2 img), fst (shape2 img)) (req_image_hash req) False), c)"
  using assms by (simp add: detect_walls_only_def)

lemma detect_fails:
  assumes "cache_lookup c (req_image_hash req) = None" and "req_image req = Some img"
    and "detect_walls_improved (image_shape img) (req_gen req) = Inl e"
  shows "detect_walls_only resize True c req = (Inl (HttpError 500 ''Detection failed''), c)"
  using assms by (simp add: detect_walls_only_def)

lemma empty_entry:
  "wall_segments (detection_entry img [] ts dt) = []"
  "original_image (detection_entry img [] ts dt) = img"
  "entry_wall_info (detection_entry img [] ts dt) = []"
  "image_size (detection_entry img [] ts dt) = (snd (shape2 img), fst (shape2 img))"
  by (simp_all add: detection_entry_def make_wall_info_def)

lemma detect_all_dropped:
  assumes "cache_lookup c (req_image_hash req) = None" and "req_image req = Some img"
    and "detect_walls_improved (image_shape img) (req_gen req) = Inr (segs, sf)"
    and "segs \<noteq> []"
    and "resize_masks_to_original resize segs (image_shape img) sf = []"
  shows "detect_walls_only resize True c req
           = (Inr (DetectOk 0 [] (snd (shape2 img), fst (shape2 img)) (req_image_hash req) False),
              cache_store (req_image_hash req)
                (detection_entry img [] (req_timestamp req) (req_detection_time req)) c)"
  using detect_stores [OF assms(1-4), of resize] assms(5)
  by (simp add: Let_def empty_entry)

lemma paint_empty_entry:
  assumes "k \<noteq> []" and "paint_image_hash preq = Some k" and "wall_ids preq = []"
  shows "paint_instant gray True (cache_store k (detection_entry img [] ts dt) c) preq
           = Inl (HttpError 400 ''No valid walls to paint'')"
  using assms
  by (simp add: paint_instant_def cache_lookup_def cache_store_def filter_walls_def empty_entry)

lemma visualize_empty_entry:
  assumes "k \<noteq> []"
  shows "visualize_masks resize True (cache_store k (detection_entry img [] ts dt) c) (Some k)
           = Inr (VisualizeOk img 0)"
  using assms
  by (simp add: visualize_masks_def cache_lookup_def cache_store_def empty_entry
      create_mask_visualization_def swap_swap)

text \<open>
  C10, as the code has it. When a detection runs (the image is decoded and its hash is not in
  the cache) and the classification retains no wall segment, the answer is a success with an
  empty wall list, the cache is left as it was, and a paint or visualize request with that
  hash is answered with the cache-miss error. When segments are retained and the rescaler
  drops every one of them, the answer is the same success with an empty wall list, but an
  entry with an empty segment list is stored under the hash: a paint request for all walls is
  then answered "No valid walls to paint" and a visualize request succeeds with the original
  image. A detection that raises is answered 500 and stores nothing.
\<close>

theorem empty_wall_list_outcomes:
  "(cache_lookup c (req_image_hash req) = None \<and> req_image req = Some img
      \<and> detect_walls_improved (image_shape img) (req_gen req) = Inr ([], sf)
      \<and> paint_image_hash preq = Some (req_image_hash req)
    \<longrightarrow> detect_walls_only resize True c req
          = (Inr (DetectOk 0 [] (snd (shape2 img), fst (shape2 img)) (req_image_hash req) False), c)
        \<and> cache_lookup (snd (detect_walls_only resize True c req)) (req_image_hash req) = None
        \<and> paint_instant gray True (snd (detect_walls_only resize True c req)) preq
            = Inl (HttpError 400 ''Image not found in cache. Please detect walls first.'')
        \<and> visualize_masks resize True (snd (detect_walls_only resize True c req))
              (Some (req_image_hash req))
            = Inl (HttpError 400 ''Image not found in cache''))
   \<and> (cache_lookup c (req_image_hash req) = None \<and> req_image req = Some img
      \<and> detect_walls_improved (image_shape img) (req_gen req) = Inr (segs, sf) \<and> segs \<noteq> []
      \<and> resize_masks_to_original resize segs (image_shape img) sf = []
      \<and> req_image_hash req \<noteq> [] \<and> paint_image_hash preq = Some (req_image_hash req)
      \<and> wall_ids preq = []
    \<longrightarrow> detect_walls_only resize True c req
          = (Inr (DetectOk 0 [] (snd (shape2 img), fst (shape2 img)) (req_image_hash req) False),
             cache_store (req_image_hash req)
               (detection_entry img [] (req_timestamp req) (req_detection_time req)) c)
        \<and> cache_lookup (snd (detect_walls_only resize True c req)) (req_image_hash req)
            = Some (detection_entry img [] (req_timestamp req) (req_detection_time req))
        \<and> paint_instant gray True (snd (detect_walls_only resize True c req)) preq
            = Inl (HttpError 400 ''No valid walls to paint'')
        \<and> visualize_masks resize True (snd (detect_walls_only resize True c req))
              (Some (req_image_hash req))
            = Inr (VisualizeOk img 0))
   \<and> (cache_lookup c (req_image_hash req) = None \<and> req_image req = Some img
      \<and> detect_walls_improved (image_shape img) (req_gen req) = Inl e
    \<longrightarrow> detect_walls_only resize True c req = (Inl (HttpError 500 ''Detection failed''), c))"
proof (intro conjI impI)
  assume h: "cache_lookup c (req_image_hash req) = None \<and> req_image req = Some img
      \<and> detect_walls_improved (image_shape img) (req_gen req) = Inr ([], sf)
      \<and> paint_image_hash preq = Some (req_image_hash req)"
  then have d: "detect_walls_only resize True c req
      = (Inr (DetectOk 0 [] (snd (shape2 img), fst (shape2 img)) (req_image_hash req) False), c)"
    by (simp add: detect_none_retained)
  then show "detect_walls_only resize True c req
      = (Inr (DetectOk 0 [] (snd (shape2 img), fst (shape2 img)) (req_image_hash req) False), c)" .
  from d h show "cache_lookup (snd (detect_walls_only resize True c req)) (req_image_hash req) = None"
    by simp
  from d h paint_cache_miss [of c "req_image_hash req" preq gray]
  show "paint_instant gray True (snd (detect_walls_only resize True c req)) preq
            = Inl (HttpError 400 ''Image not found in cache. Please detect walls first.'')"
    by simp
  from d h visualize_cache_miss [of c "req_image_hash req" resize]
  show "visualize_masks resize True (snd (detect_walls_only resize True c req))
              (Some (req_image_hash req))
            = Inl (HttpError 400 ''Image not found in cache'')"
    by simp
next
  assume h: "cache_lookup c (req_image_hash req) = None \<and> req_image req = Some img
      \<and> detect_walls_improved (image_shape img) (req_gen req) = Inr (segs, sf) \<and> segs \<noteq> []
      \<and> resize_masks_to_original resize segs (image_shape img) sf = []
      \<and> req_image_hash req \<noteq> [] \<and> paint_image_hash preq = Some (req_image_hash req)
      \<and> wall_ids preq = []"
  then have d: "detect_walls_only resize True c req
          = (Inr (DetectOk 0 [] (snd (shape2 img), fst (shape2 img)) (req_image_hash req) False),
             cache_store (req_image_hash req)
               (detection_entry img [] (req_timestamp req) (req_detection_time req)) c)"
    by (simp add: detect_all_dropped)
  then show "detect_walls_only resize True c req
          = (Inr (DetectOk 0 [] (snd (shape2 img), fst (shape2 img)) (req_image_hash req) False),
             cache_store (req_image_hash req)
               (detection_entry img [] (req_timestamp req) (req_detection_time req)) c)" .
  from d show "cache_lookup (snd (detect_walls_only resize True c req)) (req_image_hash req)
            = Some (detection_entry img [] (req_timestamp req) (req_detection_time req))"
    by (simp add: cache_lookup_def cache_store_def)
  from d h paint_empty_entry [of "req_image_hash req" preq gray img "req_timestamp req"
      "req_detection_time req" c]
  show "paint_instant gray True (snd (detect_walls_only resize True c req)) preq
            = Inl (HttpError 400 ''No valid walls to paint'')"
    by simp
  from d h show "visualize_masks resize True (snd (detect_walls_only resize True c req))
              (Some (req_image_hash req))
            = Inr (VisualizeOk img 0)"
    by (simp add: visualize_empty_entry)
next
  assume "cache_lookup c (req_image_hash req) = None \<and> req_image req = Some img
      \<and> detect_walls_improved (image_shape img) (req_gen req) = Inl e"
  then show "detect_walls_only resize True c req = (Inl (HttpError 500 ''Detection failed''), c)"
    by (simp add: detect_fails)
qed

lemma shape2_replicate: "shape2 (replicate (Suc n) r) = (Suc n, length r)"
  by (simp add: shape2_def)

lemma wide_shape: "shape2 wide_image = (1536, 2048)" "image_shape wide_image = (1536, 2048)"
proof -
  have "shape2 (replicate (Suc 1535) (replicate 2048 (0::8 word, 0::8 word, 0::8 word)))
          = (Suc 1535, 2048)"
    by (simp only: shape2_replicate length_replicate)
  then show "shape2 wide_image = (1536, 2048)"
    by (simp add: wide_image_def)
  then show "image_shape wide_image = (1536, 2048)"
    by (simp add: image_shape_def)
qed

lemma thin_shape: "image_shape thin_image = (1, 2000)"
  by (simp add: image_shape_def thin_image_def shape2_def)

lemma scale_half: "binary64_quotient 1024 2048 = (4503599627370496, 53)"
  by (simp add: binary64_quotient_def bit_length.simps round_half_even_def)

lemma times_half:
  "dyadic_int (binary64_times 2048 (4503599627370496, 53)) = 1024"
  "dyadic_int (binary64_times 1536 (4503599627370496, 53)) = 768"
  by (simp_all add: binary64_times_def binary64_quotient_def bit_length.simps
      round_half_even_def dyadic_int_def)

lemma preprocess_wide: "preprocess_shape (1536, 2048) = Inr ((768, 1024), 1 / 2)"
  by (simp add: preprocess_shape_def scale_half times_half dyadic_value_def Let_def)

lemma scale_thin: "binary64_quotient 1024 2000 = (4611686018427388, 53)"
  by (simp add: binary64_quotient_def bit_length.simps round_half_even_def)

lemma times_thin: "dyadic_int (binary64_times (Suc 0) (4611686018427388, 53)) = 0"
  by (simp add: binary64_times_def binary64_quotient_def bit_length.simps
      round_half_even_def dyadic_int_def)

lemma preprocess_thin: "preprocess_shape (Suc 0, 2000) = Inl Cv2Error"
  by (simp add: preprocess_shape_def scale_thin times_thin Let_def)

lemma detect_thin:
  "detect_walls_improved (image_shape thin_image) (req_gen thin_detection) = Inl Cv2Error"
  by (simp add: detect_walls_improved_def thin_shape preprocess_thin)

lemma mask_sum_zero:
  assumes "\<forall>r \<in> set m. \<forall>c \<in> set r. \<not> c"
  shows "mask_sum m = 0"
  using assms by (auto simp add: mask_sum_def filter_empty_conv)

lemma blank_sum: "mask_sum blank_mask = 0"
  by (rule mask_sum_zero) (simp add: blank_mask_def)

lemma scaled_index:
  assumes "0 < (a::nat)" and "i < h"
  shows "i * a div h < a"
proof -
  from assms have "i * a < a * h" by simp
  then show ?thesis by (rule less_mult_imp_div_less)
qed

lemma nn_resize_zeros:
  assumes "0 < a" "0 < b" "0 < w" "0 < h"
  shows "\<exists>G. nn_resize (replicate a (replicate b 0)) (w, h) = Inr G
           \<and> mask_sum (threshold127 G) = 0"
proof -
  let ?g = "replicate a (replicate b (0::8 word))"
  let ?G = "map (\<lambda>i. map (\<lambda>j. ?g ! (i * length ?g div h) ! (j * length (hd ?g) div w)) [0..<w])
              [0..<h]"
  from assms have hd: "hd ?g = replicate b 0" "?g \<noteq> []" "hd ?g \<noteq> []"
    by (cases a; cases b; simp)+
  with assms have r: "nn_resize ?g (w, h) = Inr ?G"
    by (simp add: nn_resize_def)
  have cell: "?g ! (i * a div h) ! (j * b div w) = 0" if "i < h" "j < w" for i j
    using that assms by (simp add: scaled_index)
  have "mask_sum (threshold127 ?G) = 0"
    by (rule mask_sum_zero) (auto simp add: threshold127_def hd cell)
  with r show ?thesis by blast
qed

lemma blank_uint8: "mask_uint8 blank_mask = replicate 768 (replicate 1024 0)"
  by (simp add: mask_uint8_def blank_mask_def)

lemma process_blank: "process_mask (768, 1024) blank_proposal = Some blank_wall"
  by (simp add: process_mask_def blank_proposal_def blank_wall_def int_bbox_def py_int_def
      classify_wall_advanced_def area_ratio_def aspect_ratio_def touches_left_def
      edge_margin_def bbox_height_def blank_sum)

lemma detect_blank:
  "detect_walls_improved (image_shape wide_image) (req_gen blank_detection)
     = Inr ([blank_wall], 1 / 2)"
  by (simp add: detect_walls_improved_def wide_shape preprocess_wide blank_detection_def
      List.map_filter_def process_blank sort_by_importance_def)

lemma resize_blank:
  "resize_masks_to_original nn_resize [blank_wall] (image_shape wide_image) (1 / 2) = []"
proof -
  obtain G where "nn_resize (replicate 768 (replicate 1024 0)) (2048, 1536) = Inr G"
    "mask_sum (threshold127 G) = 0"
    using nn_resize_zeros [of 768 1024 2048 1536] by auto
  then have "resize_segment nn_resize (1536, 2048) (1 / 2) blank_wall = None"
    by (simp add: resize_segment_def blank_wall_def blank_uint8)
  then show ?thesis
    by (simp add: resize_masks_to_original_def List.map_filter_def wide_shape)
qed

lemma blank_fields:
  "cache_lookup fmempty (req_image_hash blank_detection) = None"
  "req_image blank_detection = Some wide_image"
  "req_image_hash blank_detection = ''k''"
  "req_timestamp blank_detection = ''t''"
  "req_detection_time blank_detection = 2"
  by (simp_all add: blank_detection_def cache_lookup_def)

lemma detect_blank_request:
  "detect_walls_only nn_resize True fmempty blank_detection
     = (Inr (DetectOk 0 [] (2048, 1536) ''k'' False),
        cache_store ''k'' (detection_entry wide_image [] ''t'' 2) fmempty)"
proof -
  have "[blank_wall] \<noteq> []" by simp
  from detect_all_dropped [OF blank_fields(1,2) detect_blank this resize_blank]
  show ?thesis by (simp add: blank_fields wide_shape)
qed

theorem dropped_walls_are_cached_counterexample:
  "detect_walls_only nn_resize True fmempty blank_detection
     = (Inr (DetectOk 0 [] (2048, 1536) ''k'' False),
        cache_store ''k'' (detection_entry wide_image [] ''t'' 2) fmempty)
   \<and> cache_lookup (cache_store ''k'' (detection_entry wide_image [] ''t'' 2) fmempty) ''k''
       = Some (detection_entry wide_image [] ''t'' 2)
   \<and> visualize_masks nn_resize True
         (cache_store ''k'' (detection_entry wide_image [] ''t'' 2) fmempty) (Some ''k'')
       = Inr (VisualizeOk wide_image 0)"
  by (simp add: detect_blank_request visualize_empty_entry)
     (simp add: cache_lookup_def cache_store_def)

lemma detect_nothing:
  "detect_walls_improved (image_shape gray_image) (req_gen empty_detection) = Inr ([], 1)"
  by (simp add: detect_walls_improved_def gray_shape preprocess_within empty_detection_def
      List.map_filter_def sort_by_importance_def)

theorem empty_wall_list_outcomes_witness:
  "cache_lookup fmempty (req_image_hash empty_detection) = None
   \<and> req_image empty_detection = Some gray_image
   \<and> detect_walls_improved (image_shape gray_image) (req_gen empty_detection) = Inr ([], 1)
   \<and> detect_walls_only nn_resize True fmempty empty_detection
       = (Inr (DetectOk 0 [] (1, 1) ''k'' False), fmempty)
   \<and> paint_instant luma True (snd (detect_walls_only nn_resize True fmempty empty_detection))
         (unit_paint [] (7 / 10) False)
       = Inl (HttpError 400 ''Image not found in cache. Please detect walls first.'')
   \<and> visualize_masks nn_resize True (snd (detect_walls_only nn_resize True fmempty empty_detection))
         (Some ''k'')
       = Inl (HttpError 400 ''Image not found in cache'')
   \<and> detect_walls_improved (image_shape wide_image) (req_gen blank_detection)
       = Inr ([blank_wall], 1 / 2)
   \<and> resize_masks_to_original nn_resize [blank_wall] (image_shape wide_image) (1 / 2) = []
   \<and> paint_instant luma True (snd (detect_walls_only nn_resize True fmempty blank_detection))
         (unit_paint [] (7 / 10) False)
       = Inl (HttpError 400 ''No valid walls to paint'')
   \<and> visualize_masks nn_resize True (snd (detect_walls_only nn_resize True fmempty blank_detection))
         (Some ''k'')
       = Inr (VisualizeOk wide_image 0)
   \<and> detect_walls_improved (image_shape thin_image) (req_gen thin_detection) = Inl Cv2Error
   \<and> detect_walls_only nn_resize True fmempty thin_detection
       = (Inl (HttpError 500 ''Detection failed''), fmempty)"
proof -
  have e: "cache_lookup fmempty (req_image_hash empty_detection) = None"
    "req_image empty_detection = Some gray_image"
    "req_image_hash empty_detection = ''k''"
    by (simp_all add: empty_detection_def cache_lookup_def)
  have t: "cache_lookup fmempty (req_image_hash thin_detection) = None"
    "req_image thin_detection = Some thin_image"
    by (simp_all add: thin_detection_def cache_lookup_def)
  have p: "paint_image_hash (unit_paint [] (7 / 10) False) = Some ''k''"
    "wall_ids (unit_paint [] (7 / 10) False) = []"
    by (simp_all add: unit_paint_def)
  from empty_wall_list_outcomes [of fmempty empty_detection gray_image 1
      "unit_paint [] (7 / 10) False" nn_resize luma "[]" Cv2Error, THEN conjunct1]
    e p detect_nothing
  have a: "detect_walls_only nn_resize True fmempty empty_detection
       = (Inr (DetectOk 0 [] (1, 1) ''k'' False), fmempty)"
    "paint_instant luma True (snd (detect_walls_only nn_resize True fmempty empty_detection))
         (unit_paint [] (7 / 10) False)
       = Inl (HttpError 400 ''Image not found in cache. Please detect walls first.'')"
    "visualize_masks nn_resize True (snd (detect_walls_only nn_resize True fmempty empty_detection))
         (Some ''k'')
       = Inl (HttpError 400 ''Image not found in cache'')"
    by (auto simp add: gray_shape)
  from empty_wall_list_outcomes [of fmempty blank_detection wide_image "1 / 2"
      "unit_paint [] (7 / 10) False" nn_resize luma "[blank_wall]" Cv2Error,
      THEN conjunct2, THEN conjunct1]
    blank_fields p detect_blank resize_blank
  have b: "paint_instant luma True (snd (detect_walls_only nn_resize True fmempty blank_detection))
         (unit_paint [] (7 / 10) False)
       = Inl (HttpError 400 ''No valid walls to paint'')"
    "visualize_masks nn_resize True (snd (detect_walls_only nn_resize True fmempty blank_detection))
         (Some ''k'')
       = Inr (VisualizeOk wide_image 0)"
    by auto
  from empty_wall_list_outcomes [of fmempty thin_detection thin_image 1
      "unit_paint [] (7 / 10) False" nn_resize luma "[]" Cv2Error,
      THEN conjunct2, THEN conjunct2]
    t detect_thin
  have c: "detect_walls_only nn_resize True fmempty thin_detection
       = (Inl (HttpError 500 ''Detection failed''), fmempty)"
    by auto
  from e detect_nothing a detect_blank resize_blank b detect_thin c show ?thesis
    by simp
qed

end
